theory Spec2Isabelle
  imports Main "HOL-Library.AList"
begin

section \<open>Python values\<close>

text \<open>
  The application is one module, \<^verbatim>\<open>Project/main.py\<close>: FastAPI route handlers over a
  single SQLite table of users, with passwords hashed by passlib and sessions carried
  by a signed token in the \<^verbatim>\<open>access_token\<close> cookie.

  Strings are sequences of code points below 256, clock readings are whole seconds
  since the epoch (the resolution of a token's \<^verbatim>\<open>exp\<close> claim), integers are unbounded
  as in Python, and every exception that a step can raise is a value of \<open>exn\<close>.
\<close>

type_synonym time = int

datatype exn =
    JWTError | ExpiredSignatureError | JWTClaimsError
  | ValueError | TypeError | KeyError | OverflowError
  | PasswordSizeError | UnknownHashError
  | IntegrityError | InvalidRequestError
  | TemplateNotFound | TemplateRuntimeError

text \<open>\<^verbatim>\<open>except JWTError\<close> also catches the two subclasses of \<^verbatim>\<open>JWTError\<close>.\<close>

fun isinstance_JWTError :: "exn \<Rightarrow> bool" where
  "isinstance_JWTError JWTError = True"
| "isinstance_JWTError ExpiredSignatureError = True"
| "isinstance_JWTError JWTClaimsError = True"
| "isinstance_JWTError _ = False"

subsection \<open>\<^verbatim>\<open>str.strip\<close>, \<^verbatim>\<open>str.lower\<close>, \<^verbatim>\<open>str(int)\<close> and \<^verbatim>\<open>int(str)\<close>\<close>

definition is_space :: "char \<Rightarrow> bool" where
  \<comment> \<open>the code points below 256 for which \<^verbatim>\<open>str.isspace\<close> holds\<close>
  "is_space c = ((of_char c :: nat) \<in> {9, 10, 11, 12, 13, 28, 29, 30, 31, 32, 133, 160})"

definition strip :: "string \<Rightarrow> string" where
  "strip s = rev (dropWhile is_space (rev (dropWhile is_space s)))"

definition lower_char :: "char \<Rightarrow> char" where
  \<comment> \<open>A to Z, and the Latin-1 capitals 192 to 222 without the multiplication sign\<close>
  "lower_char c =
     (let n = (of_char c :: nat)
      in if (65 \<le> n \<and> n \<le> 90) \<or> (192 \<le> n \<and> n \<le> 222 \<and> n \<noteq> 215)
         then char_of (n + 32) else c)"

definition lower :: "string \<Rightarrow> string" where
  "lower s = map lower_char s"

definition is_int_space :: "char \<Rightarrow> bool" where
  \<comment> \<open>what \<^verbatim>\<open>int(s)\<close> skips around the number: the ASCII whitespace 9 to 13 and 32, and the
      whitespace above 127; not the separators 28 to 31\<close>
  "is_int_space c = ((of_char c :: nat) \<in> {9, 10, 11, 12, 13, 32, 133, 160})"

definition int_strip :: "string \<Rightarrow> string" where
  "int_strip s = rev (dropWhile is_int_space (rev (dropWhile is_int_space s)))"

definition digit_char :: "nat \<Rightarrow> char" where
  "digit_char d = char_of (48 + d)"

definition is_digit :: "char \<Rightarrow> bool" where
  "is_digit c = (48 \<le> (of_char c :: nat) \<and> (of_char c :: nat) \<le> 57)"

definition digit_val :: "char \<Rightarrow> int" where
  "digit_val c = int (of_char c) - 48"

fun str_nat :: "nat \<Rightarrow> string" where
  "str_nat n = (if n < 10 then [digit_char n] else str_nat (n div 10) @ [digit_char (n mod 10)])"

declare str_nat.simps [simp del]

definition py_str :: "int \<Rightarrow> string" where
  \<comment> \<open>\<^verbatim>\<open>str(n)\<close> for an integer; the application calls it on row ids only\<close>
  "py_str n = (if n < 0 then CHR ''-'' # str_nat (nat (- n)) else str_nat (nat n))"

text \<open>
  The digits of \<^verbatim>\<open>int(s)\<close>: decimal digits, with single underscores allowed between two
  digits. The flag says whether the previous character was a digit.
\<close>

fun parse_digits :: "string \<Rightarrow> int \<Rightarrow> bool \<Rightarrow> int option" where
  "parse_digits [] acc prev = (if prev then Some acc else None)"
| "parse_digits (c # cs) acc prev =
     (if is_digit c then parse_digits cs (acc * 10 + digit_val c) True
      else if c = CHR ''_'' \<and> prev then parse_digits cs acc False
      else None)"

definition MAX_STR_DIGITS :: nat where
  \<comment> \<open>the interpreter's default limit on the digits of a converted integer\<close>
  "MAX_STR_DIGITS = 4300"

definition py_int :: "string \<Rightarrow> exn + int" where
  \<comment> \<open>\<^verbatim>\<open>int(s)\<close>: surrounding whitespace, an optional sign, then the digits, at most
      \<open>MAX_STR_DIGITS\<close> of them\<close>
  "py_int s =
     (let t = int_strip s;
          neg = (case t of [] \<Rightarrow> False | c # _ \<Rightarrow> c = CHR ''-'');
          ds = (case t of [] \<Rightarrow> [] | c # cs \<Rightarrow> if c = CHR ''-'' \<or> c = CHR ''+'' then cs else t)
      in if MAX_STR_DIGITS < length (filter is_digit ds) then Inl ValueError
         else case parse_digits ds 0 False of
                None \<Rightarrow> Inl ValueError
              | Some n \<Rightarrow> Inr (if neg then - n else n))"

subsection \<open>Dictionaries of claims\<close>

text \<open>
  The values a decoded JSON payload can hold. A finite float is \<open>m * 2 ^ e\<close>;
  \<^verbatim>\<open>json.loads\<close> also reads \<^verbatim>\<open>Infinity\<close>, \<^verbatim>\<open>-Infinity\<close> and \<^verbatim>\<open>NaN\<close>.
\<close>

datatype pyfloat = Finite int int | Infinity bool | NaN

datatype jval =
    JNull | JBool bool | JInt int | JFloat pyfloat | JStr string
  | JList "jval list" | JObj "(string \<times> jval) list"

type_synonym claims = "(string \<times> jval) list"

definition float_trunc :: "int \<Rightarrow> int \<Rightarrow> int" where
  \<comment> \<open>\<open>m * 2 ^ e\<close> rounded towards zero\<close>
  "float_trunc m e =
     (if 0 \<le> e then m * 2 ^ nat e
      else if 0 \<le> m then m div 2 ^ nat (- e)
      else - ((- m) div 2 ^ nat (- e)))"

definition int_of_jval :: "jval \<Rightarrow> exn + int" where
  \<comment> \<open>\<^verbatim>\<open>int(v)\<close> for a claim value\<close>
  "int_of_jval v =
     (case v of
        JNull \<Rightarrow> Inl TypeError
      | JBool b \<Rightarrow> Inr (if b then 1 else 0)
      | JInt n \<Rightarrow> Inr n
      | JFloat f \<Rightarrow>
          (case f of
             Finite m e \<Rightarrow> Inr (float_trunc m e)
           | Infinity _ \<Rightarrow> Inl OverflowError
           | NaN \<Rightarrow> Inl ValueError)
      | JStr s \<Rightarrow> py_int s
      | JList _ \<Rightarrow> Inl TypeError
      | JObj _ \<Rightarrow> Inl TypeError)"

section \<open>The environment: token library, password hasher, database, templates\<close>

subsection \<open>Signed tokens (python-jose)\<close>

text \<open>
  The library is not part of the repository. A cookie value is a string; the model
  keeps of it what \<^verbatim>\<open>jwt.decode\<close> reads. Either the string is rejected before any claim
  is looked at, because it is not a compact JWS with a JSON object as payload
  (\<open>Malformed\<close>, which includes the empty string); or it carries an algorithm name, a
  payload, and a signature that verifies under exactly one key (\<open>Signed\<close>).
  \<^verbatim>\<open>jwt.encode\<close> builds the latter. \<^verbatim>\<open>jwt.decode\<close> rejects an algorithm that is not
  allowed and a signature made under another key with \<^verbatim>\<open>JWTError\<close>, then validates
  the claims in the library's order: \<^verbatim>\<open>iat\<close>, \<^verbatim>\<open>nbf\<close>, \<^verbatim>\<open>exp\<close>, \<^verbatim>\<open>aud\<close>, \<^verbatim>\<open>sub\<close>, \<^verbatim>\<open>jti\<close>,
  \<^verbatim>\<open>at_hash\<close>.

  The three time claims are read with \<^verbatim>\<open>int(claims[name])\<close> under \<^verbatim>\<open>except ValueError\<close>:
  a \<^verbatim>\<open>ValueError\<close> becomes \<^verbatim>\<open>JWTClaimsError\<close>, while the \<^verbatim>\<open>TypeError\<close> of a null, a list
  or an object and the \<^verbatim>\<open>OverflowError\<close> of an infinite float leave \<^verbatim>\<open>jwt.decode\<close> as
  they are. A token is expired when \<^verbatim>\<open>exp < now\<close> and not yet valid when \<^verbatim>\<open>nbf > now\<close>.
  The application passes neither audience nor access token, so every \<^verbatim>\<open>aud\<close> and every
  \<^verbatim>\<open>at_hash\<close> is refused; \<^verbatim>\<open>sub\<close> and \<^verbatim>\<open>jti\<close> must be strings.
\<close>

datatype token = Malformed string | Signed string claims string

definition jwt_encode :: "claims \<Rightarrow> string \<Rightarrow> string \<Rightarrow> token" where
  "jwt_encode payload key algorithm = Signed algorithm payload key"

definition and_then :: "exn + unit \<Rightarrow> exn + 'a \<Rightarrow> exn + 'a" where
  \<comment> \<open>one statement after another: the first exception ends the sequence\<close>
  "and_then r k = (case r of Inl e \<Rightarrow> Inl e | Inr _ \<Rightarrow> k)"

definition claim_int :: "claims \<Rightarrow> string \<Rightarrow> exn + int option" where
  \<comment> \<open>\<^verbatim>\<open>int(claims[name])\<close> under \<^verbatim>\<open>except ValueError\<close>, for a claim that may be absent\<close>
  "claim_int payload name =
     (case map_of payload name of
        None \<Rightarrow> Inr None
      | Some v \<Rightarrow>
          (case int_of_jval v of
             Inl e \<Rightarrow> if e = ValueError then Inl JWTClaimsError else Inl e
           | Inr n \<Rightarrow> Inr (Some n)))"

definition validate_iat :: "claims \<Rightarrow> exn + unit" where
  "validate_iat payload =
     (case claim_int payload ''iat'' of Inl e \<Rightarrow> Inl e | Inr _ \<Rightarrow> Inr ())"

definition validate_nbf :: "claims \<Rightarrow> time \<Rightarrow> exn + unit" where
  "validate_nbf payload now =
     (case claim_int payload ''nbf'' of
        Inl e \<Rightarrow> Inl e
      | Inr None \<Rightarrow> Inr ()
      | Inr (Some nbf) \<Rightarrow> if now < nbf then Inl JWTClaimsError else Inr ())"

definition validate_exp :: "claims \<Rightarrow> time \<Rightarrow> exn + unit" where
  "validate_exp payload now =
     (case claim_int payload ''exp'' of
        Inl e \<Rightarrow> Inl e
      | Inr None \<Rightarrow> Inr ()
      | Inr (Some e) \<Rightarrow> if e < now then Inl ExpiredSignatureError else Inr ())"

definition validate_aud :: "claims \<Rightarrow> exn + unit" where
  \<comment> \<open>without an expected audience, a malformed \<^verbatim>\<open>aud\<close> and a well-formed one both fail\<close>
  "validate_aud payload =
     (case map_of payload ''aud'' of None \<Rightarrow> Inr () | Some _ \<Rightarrow> Inl JWTClaimsError)"

definition validate_str :: "claims \<Rightarrow> string \<Rightarrow> exn + unit" where
  \<comment> \<open>\<^verbatim>\<open>sub\<close> and \<^verbatim>\<open>jti\<close>: if present, a string\<close>
  "validate_str payload name =
     (case map_of payload name of
        None \<Rightarrow> Inr ()
      | Some (JStr _) \<Rightarrow> Inr ()
      | Some _ \<Rightarrow> Inl JWTClaimsError)"

definition validate_at_hash :: "claims \<Rightarrow> exn + unit" where
  "validate_at_hash payload =
     (case map_of payload ''at_hash'' of None \<Rightarrow> Inr () | Some _ \<Rightarrow> Inl JWTClaimsError)"

definition validate_claims :: "claims \<Rightarrow> time \<Rightarrow> exn + unit" where
  "validate_claims payload now =
     and_then (validate_iat payload)
    (and_then (validate_nbf payload now)
    (and_then (validate_exp payload now)
    (and_then (validate_aud payload)
    (and_then (validate_str payload ''sub'')
    (and_then (validate_str payload ''jti'')
    (validate_at_hash payload))))))"

definition jwt_decode :: "token \<Rightarrow> string \<Rightarrow> string list \<Rightarrow> time \<Rightarrow> exn + claims" where
  "jwt_decode tok key algorithms now =
     (case tok of
        Malformed _ \<Rightarrow> Inl JWTError
      | Signed alg payload k \<Rightarrow>
          if alg \<notin> set algorithms then Inl JWTError
          else if k \<noteq> key then Inl JWTError
          else and_then (validate_claims payload now) (Inr payload))"

subsection \<open>Password hashing (passlib)\<close>

text \<open>
  The Argon2 computation is a parameter: \<open>hash_fn secret salt\<close> is the hash string for a
  salt the library draws at random, \<open>identify_fn hash\<close> says whether a string is a hash
  the context recognises, \<open>verify_fn secret hash\<close> is the comparison for one it does.
  Around them \<^verbatim>\<open>CryptContext.hash\<close> and \<^verbatim>\<open>CryptContext.verify\<close> refuse a secret of more
  than 4096 characters with \<^verbatim>\<open>PasswordSizeError\<close>, and \<^verbatim>\<open>verify\<close> refuses, before that,
  a hash it cannot identify with \<^verbatim>\<open>UnknownHashError\<close>.
\<close>

record crypt_context =
  hash_fn :: "string \<Rightarrow> string \<Rightarrow> string"
  identify_fn :: "string \<Rightarrow> bool"
  verify_fn :: "string \<Rightarrow> string \<Rightarrow> bool"

definition MAX_PASSWORD_SIZE :: nat where
  "MAX_PASSWORD_SIZE = 4096"

definition pwd_ctx_hash :: "crypt_context \<Rightarrow> string \<Rightarrow> string \<Rightarrow> exn + string" where
  "pwd_ctx_hash ctx secret salt =
     (if MAX_PASSWORD_SIZE < length secret then Inl PasswordSizeError
      else Inr (hash_fn ctx secret salt))"

definition pwd_ctx_verify :: "crypt_context \<Rightarrow> string \<Rightarrow> string \<Rightarrow> exn + bool" where
  "pwd_ctx_verify ctx secret hashed =
     (if \<not> identify_fn ctx hashed then Inl UnknownHashError
      else if MAX_PASSWORD_SIZE < length secret then Inl PasswordSizeError
      else Inr (verify_fn ctx secret hashed))"

subsection \<open>The users table and the ORM session\<close>

record user =
  user_id :: int
  username :: string
  email :: string
  hashed_password :: string
  created_at :: "time option"

text \<open>
  A \<^verbatim>\<open>User(...)\<close> object that has been constructed and not yet flushed has neither id
  nor creation time.
\<close>

record transient_user =
  t_username :: string
  t_email :: string
  t_hashed_password :: string

text \<open>
  The database file is the list of rows of \<^verbatim>\<open>users\<close>, in the order of their insertion.
  A session (\<^verbatim>\<open>get_db\<close>) sees the table, holds the object added by \<^verbatim>\<open>db.add\<close> until the
  next flush, and is inactive after a failed flush until \<^verbatim>\<open>db.rollback\<close>.

  \<^verbatim>\<open>id\<close> is the table's \<^verbatim>\<open>INTEGER PRIMARY KEY\<close>, that is, SQLite's rowid. SQLite keeps
  the rows in a B-tree on the rowid, so a \<^verbatim>\<open>SELECT\<close> of all rows without \<^verbatim>\<open>ORDER BY\<close>
  walks them by id ascending. A new row gets the largest id plus one; when the largest
  id is \<open>2 ^ 63 - 1\<close> SQLite draws random ids until it meets an unused one, and \<open>rnd\<close> is
  the id it settles on.
\<close>

record db_session =
  table :: "user list"
  pending :: "transient_user option"
  inactive :: bool

definition get_db :: "user list \<Rightarrow> db_session" where
  "get_db tbl = \<lparr>table = tbl, pending = None, inactive = False\<rparr>"

definition db_close :: "db_session \<Rightarrow> user list" where
  \<comment> \<open>what is in the file once the request's session is closed\<close>
  "db_close s = table s"

definition db_add :: "db_session \<Rightarrow> transient_user \<Rightarrow> db_session" where
  "db_add s u = s\<lparr>pending := Some u\<rparr>"

definition next_rowid :: "int \<Rightarrow> user list \<Rightarrow> int" where
  "next_rowid rnd tbl =
     (case tbl of
        [] \<Rightarrow> 1
      | u # us \<Rightarrow>
          (let largest = fold max (map user_id us) (user_id u)
           in if largest < 2 ^ 63 - 1 then largest + 1 else rnd))"

definition insert_user :: "int \<Rightarrow> time \<Rightarrow> user list \<Rightarrow> transient_user \<Rightarrow> exn + user" where
  \<comment> \<open>the \<^verbatim>\<open>INSERT\<close>: \<^verbatim>\<open>email\<close> is \<^verbatim>\<open>unique=True\<close>, compared byte for byte\<close>
  "insert_user rnd now tbl u =
     (if \<exists>r \<in> set tbl. email r = t_email u then Inl IntegrityError
      else Inr \<lparr>user_id = next_rowid rnd tbl, username = t_username u, email = t_email u,
                hashed_password = t_hashed_password u, created_at = Some now\<rparr>)"

definition db_commit :: "int \<Rightarrow> time \<Rightarrow> db_session \<Rightarrow> (exn + user option) \<times> db_session" where
  \<comment> \<open>flush the pending object and commit; on success the object is the new row\<close>
  "db_commit rnd now s =
     (case pending s of
        None \<Rightarrow> (Inr None, s)
      | Some u \<Rightarrow>
          (case insert_user rnd now (table s) u of
             Inl e \<Rightarrow> (Inl e, s\<lparr>inactive := True\<rparr>)
           | Inr row \<Rightarrow>
               (Inr (Some row), \<lparr>table = table s @ [row], pending = None, inactive = False\<rparr>)))"

definition db_rollback :: "db_session \<Rightarrow> db_session" where
  "db_rollback s = s\<lparr>pending := None, inactive := False\<rparr>"

definition db_refresh :: "user option \<Rightarrow> exn + user" where
  \<comment> \<open>\<^verbatim>\<open>db.refresh(user)\<close> reloads a persistent object and refuses any other\<close>
  "db_refresh obj = (case obj of None \<Rightarrow> Inl InvalidRequestError | Some row \<Rightarrow> Inr row)"

definition rowid_scan :: "user list \<Rightarrow> user list" where
  \<comment> \<open>the rows as a walk of the rowid B-tree meets them\<close>
  "rowid_scan tbl = sort_key user_id tbl"

definition query_all :: "db_session \<Rightarrow> user list" where
  \<comment> \<open>\<^verbatim>\<open>db.query(User).all()\<close>\<close>
  "query_all s = rowid_scan (table s)"

definition query_order_by_id :: "db_session \<Rightarrow> user list" where
  \<comment> \<open>\<^verbatim>\<open>db.query(User).order_by(User.id.asc()).all()\<close>\<close>
  "query_order_by_id s = sort_key user_id (rowid_scan (table s))"

definition query_first_by_id :: "db_session \<Rightarrow> int \<Rightarrow> exn + user option" where
  \<comment> \<open>\<^verbatim>\<open>db.query(User).filter(User.id == uid).first()\<close>; the driver refuses to bind an
      integer outside 64 bits\<close>
  "query_first_by_id s uid =
     (if uid < - (2 ^ 63) \<or> 2 ^ 63 \<le> uid then Inl OverflowError
      else Inr (find (\<lambda>r. user_id r = uid) (table s)))"

definition query_first_by_email :: "db_session \<Rightarrow> string \<Rightarrow> user option" where
  \<comment> \<open>\<^verbatim>\<open>db.query(User).filter(User.email == e).first()\<close>\<close>
  "query_first_by_email s e = find (\<lambda>r. email r = e) (table s)"

subsection \<open>Responses and templates\<close>

text \<open>
  The fixed HTML fragments of the handlers are named rather than spelled out; a
  rendered template is its text.
\<close>

datatype content =
    PasswordsDoNotMatch    \<comment> \<open>line 163, links back to \<^verbatim>\<open>/register\<close>\<close>
  | EmailAlreadyExists     \<comment> \<open>line 177, links back to \<^verbatim>\<open>/register\<close>\<close>
  | UserNotFound           \<comment> \<open>line 198, links back to \<^verbatim>\<open>/login\<close>\<close>
  | WrongPassword          \<comment> \<open>line 201, links back to \<^verbatim>\<open>/login\<close>\<close>
  | DiscussionsUnavailable \<comment> \<open>line 142, the inline fallback page\<close>
  | UsersTable "(string \<times> string \<times> string \<times> time option) list" \<comment> \<open>lines 108 to 118\<close>
  | Rendered string
  | NoContent

record cookie =
  cookie_key :: string
  cookie_value :: token
  httponly :: bool
  samesite :: string
  max_age :: int

record response =
  status_code :: nat
  body :: content
  location :: "string option"
  set_cookies :: "cookie list"
  deleted_cookies :: "string list"

definition HTMLResponse :: "content \<Rightarrow> nat \<Rightarrow> response" where
  "HTMLResponse c code =
     \<lparr>status_code = code, body = c, location = None, set_cookies = [], deleted_cookies = []\<rparr>"

definition RedirectResponse :: "string \<Rightarrow> nat \<Rightarrow> response" where
  "RedirectResponse url code =
     \<lparr>status_code = code, body = NoContent, location = Some url, set_cookies = [],
      deleted_cookies = []\<rparr>"

definition set_cookie :: "response \<Rightarrow> cookie \<Rightarrow> response" where
  "set_cookie r c = r\<lparr>set_cookies := set_cookies r @ [c]\<rparr>"

definition delete_cookie :: "response \<Rightarrow> string \<Rightarrow> response" where
  "delete_cookie r k = r\<lparr>deleted_cookies := deleted_cookies r @ [k]\<rparr>"

record template_context =
  ctx_user :: "user option"
  ctx_users_list :: "user list"

text \<open>
  The template directory maps a name to the rendering of a template, which may itself
  fail. \<^verbatim>\<open>TemplateResponse\<close> loads and renders at once.
\<close>

type_synonym template_dir = "string \<Rightarrow> (template_context \<Rightarrow> exn + string) option"

definition TemplateResponse :: "template_dir \<Rightarrow> string \<Rightarrow> template_context \<Rightarrow> exn + response" where
  "TemplateResponse templates name context =
     (case templates name of
        None \<Rightarrow> Inl TemplateNotFound
      | Some render \<Rightarrow>
          (case render context of
             Inl e \<Rightarrow> Inl e
           | Inr text \<Rightarrow> Inr (HTMLResponse (Rendered text) 200)))"

section \<open>The application\<close>

definition SECRET_KEY :: string where
  "SECRET_KEY = ''replace_this_with_a_long_random_secret_in_prod''"

definition ALGORITHM :: string where
  "ALGORITHM = ''HS256''"

definition ACCESS_TOKEN_EXPIRE_MINUTES :: int where
  "ACCESS_TOKEN_EXPIRE_MINUTES = 60 * 24 * 7"

definition timedelta_minutes :: "int \<Rightarrow> int" where
  \<comment> \<open>\<^verbatim>\<open>timedelta(minutes=m)\<close>, in seconds\<close>
  "timedelta_minutes m = m * 60"

definition verify_password :: "crypt_context \<Rightarrow> string \<Rightarrow> string \<Rightarrow> exn + bool" where
  "verify_password pwd_ctx plain hashed = pwd_ctx_verify pwd_ctx plain hashed"

definition get_password_hash :: "crypt_context \<Rightarrow> string \<Rightarrow> string \<Rightarrow> exn + string" where
  \<comment> \<open>\<open>salt\<close> is the random salt of this call\<close>
  "get_password_hash pwd_ctx salt password = pwd_ctx_hash pwd_ctx password salt"

text \<open>
  \<^verbatim>\<open>create_access_token\<close>, lines 63 to 71. \<open>utcnow\<close> is the clock reading of the call.
  \<^verbatim>\<open>if expires_delta:\<close> is false for \<^verbatim>\<open>None\<close> and for a zero \<^verbatim>\<open>timedelta\<close>.
\<close>

definition create_access_token :: "time \<Rightarrow> claims \<Rightarrow> int option \<Rightarrow> token" where
  "create_access_token utcnow data expires_delta =
     (let to_encode = data;
          expire = (case expires_delta of
                      None \<Rightarrow> utcnow + timedelta_minutes ACCESS_TOKEN_EXPIRE_MINUTES
                    | Some d \<Rightarrow>
                        if d \<noteq> 0 then utcnow + d
                        else utcnow + timedelta_minutes ACCESS_TOKEN_EXPIRE_MINUTES);
          to_encode = AList.update ''exp'' (JInt expire) to_encode
      in jwt_encode to_encode SECRET_KEY ALGORITHM)"

text \<open>
  \<^verbatim>\<open>decode_token\<close>, lines 73 to 78: only a \<^verbatim>\<open>JWTError\<close> becomes \<^verbatim>\<open>None\<close>; any other
  exception of \<^verbatim>\<open>jwt.decode\<close> leaves the function.
\<close>

definition decode_token :: "time \<Rightarrow> token \<Rightarrow> exn + claims option" where
  "decode_token now tok =
     (case jwt_decode tok SECRET_KEY [ALGORITHM] now of
        Inl e \<Rightarrow> if isinstance_JWTError e then Inr None else Inl e
      | Inr payload \<Rightarrow> Inr (Some payload))"

subsection \<open>\<^verbatim>\<open>GET /debug/users\<close> and \<^verbatim>\<open>GET /debug/users/html\<close>\<close>

record user_json =
  j_id :: int
  j_username :: string
  j_email :: string
  j_created_at :: "time option"

definition get_all_users :: "db_session \<Rightarrow> user_json list" where
  "get_all_users db =
     (let users = query_all db
      in map (\<lambda>u. \<lparr>j_id = user_id u, j_username = username u, j_email = email u,
                    j_created_at = created_at u\<rparr>) users)"

definition get_all_users_html :: "db_session \<Rightarrow> response" where
  "get_all_users_html db =
     (let users = query_all db;
          rows = map (\<lambda>u. (py_str (user_id u), username u, email u, created_at u)) users
      in HTMLResponse (UsersTable rows) 200)"

subsection \<open>\<^verbatim>\<open>GET /discussions\<close>\<close>

definition token_truthy :: "token \<Rightarrow> bool" where
  \<comment> \<open>\<^verbatim>\<open>if token:\<close> is false for the empty string\<close>
  "token_truthy tok = (tok \<noteq> Malformed [])"

definition lookup_sub :: "db_session \<Rightarrow> claims \<Rightarrow> exn + user option" where
  \<comment> \<open>the body of the \<^verbatim>\<open>try\<close>, lines 130 and 131\<close>
  "lookup_sub db data =
     (case map_of data ''sub'' of
        None \<Rightarrow> Inl KeyError
      | Some v \<Rightarrow>
          (case int_of_jval v of
             Inl e \<Rightarrow> Inl e
           | Inr uid \<Rightarrow> query_first_by_id db uid))"

text \<open>
  Lines 124 to 133, the resolution of the cookie to \<^verbatim>\<open>user_obj\<close>. \<^verbatim>\<open>except Exception\<close>
  catches whatever the \<^verbatim>\<open>try\<close> raises; \<^verbatim>\<open>decode_token\<close> is outside the \<^verbatim>\<open>try\<close>.
\<close>

definition session_user :: "db_session \<Rightarrow> time \<Rightarrow> token option \<Rightarrow> exn + user option" where
  "session_user db now cookie =
     (case cookie of
        None \<Rightarrow> Inr None
      | Some tok \<Rightarrow>
          if \<not> token_truthy tok then Inr None
          else (case decode_token now tok of
                  Inl e \<Rightarrow> Inl e
                | Inr None \<Rightarrow> Inr None
                | Inr (Some data) \<Rightarrow>
                    if data \<noteq> [] \<and> ''sub'' \<in> fst ` set data
                    then (case lookup_sub db data of Inl _ \<Rightarrow> Inr None | Inr user_obj \<Rightarrow> Inr user_obj)
                    else Inr None))"

definition discussions_context :: "db_session \<Rightarrow> time \<Rightarrow> token option \<Rightarrow> exn + template_context" where
  \<comment> \<open>lines 124 to 137: the context handed to the template\<close>
  "discussions_context db now cookie =
     (case session_user db now cookie of
        Inl e \<Rightarrow> Inl e
      | Inr user_obj \<Rightarrow>
          (let users_list = query_order_by_id db
           in Inr \<lparr>ctx_user = user_obj, ctx_users_list = users_list\<rparr>))"

definition discussions :: "template_dir \<Rightarrow> time \<Rightarrow> token option \<Rightarrow> db_session \<Rightarrow> exn + response" where
  "discussions templates now cookie db =
     (case discussions_context db now cookie of
        Inl e \<Rightarrow> Inl e
      | Inr context \<Rightarrow>
          (case TemplateResponse templates ''discussions/discussions.html'' context of
             Inl e \<Rightarrow>
               if e = TemplateNotFound then Inr (HTMLResponse DiscussionsUnavailable 200)
               else Inl e
           | Inr r \<Rightarrow> Inr r))"

subsection \<open>\<^verbatim>\<open>POST /register\<close>, \<^verbatim>\<open>POST /login\<close>, \<^verbatim>\<open>GET /logout\<close>\<close>

definition access_cookie :: "token \<Rightarrow> cookie" where
  \<comment> \<open>the arguments of \<^verbatim>\<open>set_cookie\<close>, lines 183 to 189 and again 205 to 211\<close>
  "access_cookie access_token =
     \<lparr>cookie_key = ''access_token'', cookie_value = access_token, httponly = True,
      samesite = ''lax'', max_age = ACCESS_TOKEN_EXPIRE_MINUTES * 60\<rparr>"

text \<open>
  \<^verbatim>\<open>post_register\<close>, lines 152 to 191. \<open>salt\<close> is the hasher's random salt, \<open>rnd\<close> the random
  row id of the insert, \<open>now_db\<close> the clock when the row is inserted (\<^verbatim>\<open>created_at\<close>),
  \<open>now_tok\<close> the clock when the token is issued. The result is the response, or the
  exception that leaves the handler, together with the session.
\<close>

definition post_register ::
  "crypt_context \<Rightarrow> string \<Rightarrow> int \<Rightarrow> time \<Rightarrow> time \<Rightarrow> string \<Rightarrow> string \<Rightarrow> string \<Rightarrow> string \<Rightarrow>
   db_session \<Rightarrow> (exn + response) \<times> db_session" where
  "post_register pwd_ctx salt rnd now_db now_tok username_in email_in password password_confirm db =
     (if password \<noteq> password_confirm then (Inr (HTMLResponse PasswordsDoNotMatch 400), db)
      else
        case get_password_hash pwd_ctx salt password of
          Inl e \<Rightarrow> (Inl e, db)
        | Inr hashed \<Rightarrow>
            let user = \<lparr>t_username = strip username_in, t_email = lower (strip email_in),
                        t_hashed_password = hashed\<rparr>;
                db = db_add db user;
                attempt = (case db_commit rnd now_db db of
                             (Inl e, db') \<Rightarrow> (Inl e, db')
                           | (Inr obj, db') \<Rightarrow> (db_refresh obj, db'))
            in case attempt of
                 (Inl e, db') \<Rightarrow>
                   if e = IntegrityError
                   then (Inr (HTMLResponse EmailAlreadyExists 400), db_rollback db')
                   else (Inl e, db')
               | (Inr row, db') \<Rightarrow>
                   (let access_token =
                          create_access_token now_tok [(''sub'', JStr (py_str (user_id row)))] None;
                        redirect_resp = RedirectResponse ''/discussions'' 303;
                        redirect_resp = set_cookie redirect_resp (access_cookie access_token)
                    in (Inr redirect_resp, db')))"

text \<open>
  \<^verbatim>\<open>post_login\<close>, lines 193 to 213. Nothing catches what \<^verbatim>\<open>verify_password\<close> raises.
\<close>

definition post_login ::
  "crypt_context \<Rightarrow> time \<Rightarrow> string \<Rightarrow> string \<Rightarrow> db_session \<Rightarrow> exn + response" where
  "post_login pwd_ctx now email_in password db =
     (case query_first_by_email db (lower (strip email_in)) of
        None \<Rightarrow> Inr (HTMLResponse UserNotFound 401)
      | Some row \<Rightarrow>
          (case verify_password pwd_ctx password (hashed_password row) of
             Inl e \<Rightarrow> Inl e
           | Inr ok \<Rightarrow>
               if \<not> ok then Inr (HTMLResponse WrongPassword 401)
               else
                 (let access_token =
                        create_access_token now [(''sub'', JStr (py_str (user_id row)))] None;
                      redirect_resp = RedirectResponse ''/discussions'' 303;
                      redirect_resp = set_cookie redirect_resp (access_cookie access_token)
                  in Inr redirect_resp)))"

definition logout :: response where
  "logout = delete_cookie (RedirectResponse ''/'' 303) ''access_token''"

subsection \<open>One request against the database file\<close>

text \<open>
  \<^verbatim>\<open>Depends(get_db)\<close> opens a session for the request and closes it afterwards, whatever
  the handler did. Only registration writes; this is the step from one state of the
  file to the next.
\<close>

definition register_request ::
  "crypt_context \<Rightarrow> string \<Rightarrow> int \<Rightarrow> time \<Rightarrow> time \<Rightarrow> string \<Rightarrow> string \<Rightarrow> string \<Rightarrow> string \<Rightarrow>
   user list \<Rightarrow> (exn + response) \<times> user list" where
  "register_request pwd_ctx salt rnd now_db now_tok username_in email_in password password_confirm
     tbl =
     (case post_register pwd_ctx salt rnd now_db now_tok username_in email_in password
             password_confirm (get_db tbl) of
        (r, db) \<Rightarrow> (r, db_close db))"

definition new_row ::
  "crypt_context \<Rightarrow> string \<Rightarrow> int \<Rightarrow> time \<Rightarrow> string \<Rightarrow> string \<Rightarrow> string \<Rightarrow> user list \<Rightarrow> user" where
  \<comment> \<open>the row a successful registration adds to \<open>tbl\<close>\<close>
  "new_row pwd_ctx salt rnd now_db username_in email_in password tbl =
     \<lparr>user_id = next_rowid rnd tbl, username = strip username_in, email = lower (strip email_in),
      hashed_password = hash_fn pwd_ctx password salt, created_at = Some now_db\<rparr>"

text \<open>The states of the file that follow a given one, by any number of registration requests.\<close>

inductive evolves :: "user list \<Rightarrow> user list \<Rightarrow> bool" where
  same: "evolves tbl tbl"
| registered:
    "evolves tbl tbl' \<Longrightarrow>
     evolves tbl (snd (register_request pwd_ctx salt rnd now_db now_tok username_in email_in
                         password password_confirm tbl'))"

subsection \<open>Sample inputs\<close>

text \<open>
  A stand-in for the Argon2 computation, to run the handlers on concrete requests: the
  hash is the salt, a dollar sign and the reversed password, and a string with a dollar
  sign is recognised as a hash.
\<close>

definition sample_ctx :: crypt_context where
  "sample_ctx =
     \<lparr>hash_fn = (\<lambda>password salt. salt @ ''$'' @ rev password),
      identify_fn = (\<lambda>hashed. CHR ''$'' \<in> set hashed),
      verify_fn = (\<lambda>plain hashed. drop (length hashed - length plain) hashed = rev plain)\<rparr>"

text \<open>A template directory that holds the discussions page, rendered as a list of names.\<close>

definition sample_templates :: template_dir where
  "sample_templates name =
     (if name = ''discussions/discussions.html''
      then Some (\<lambda>context.
             Inr ((case ctx_user context of None \<Rightarrow> ''guest'' | Some u \<Rightarrow> username u)
                  @ '':'' @ concat (map username (ctx_users_list context))))
      else None)"

definition long_password :: string where
  \<comment> \<open>4097 characters\<close>
  "long_password = replicate 4097 CHR ''a''"

definition exp_null_cookie :: token where
  \<comment> \<open>a token signed with the application's key whose \<^verbatim>\<open>exp\<close> is JSON \<^verbatim>\<open>null\<close>\<close>
  "exp_null_cookie = Signed ''HS256'' [(''sub'', JStr ''1''), (''exp'', JNull)] SECRET_KEY"

definition alice :: user where
  "alice = \<lparr>user_id = 1, username = ''alice'', email = ''alice@x.com'',
            hashed_password = ''s1$1wp'', created_at = Some 1000\<rparr>"

definition bob :: user where
  "bob = \<lparr>user_id = 2, username = ''bob'', email = ''bob@x.com'',
          hashed_password = ''s2$2wp'', created_at = Some 2000\<rparr>"

section \<open>Decimal strings and row ids\<close>

text \<open>
  \<^verbatim>\<open>int(str(n))\<close> is \<open>n\<close> for an integer within the digit limit, and below the last
  rowid the id of a new row lies above every id in the table.
\<close>

lemma is_digit_digit_char: "d < 10 \<Longrightarrow> is_digit (digit_char d)"
  by (simp add: is_digit_def digit_char_def)

lemma digit_val_digit_char: "d < 10 \<Longrightarrow> digit_val (digit_char d) = int d"
  by (simp add: digit_val_def digit_char_def)

lemma is_digit_not_int_space: "is_digit c \<Longrightarrow> \<not> is_int_space c"
  by (auto simp: is_digit_def is_int_space_def)

lemma is_digit_not_sign: "is_digit c \<Longrightarrow> c \<noteq> CHR ''-'' \<and> c \<noteq> CHR ''+''"
  by (auto simp: is_digit_def)

lemma str_nat_digits: "c \<in> set (str_nat n) \<Longrightarrow> is_digit c"
proof (induction n arbitrary: c rule: str_nat.induct)
  case (1 n)
  show ?case
  proof (cases "n < 10")
    case True
    with "1.prems" show ?thesis
      by (simp add: str_nat.simps [of n] is_digit_digit_char)
  next
    case False
    with "1.prems" have "c \<in> set (str_nat (n div 10)) \<or> c = digit_char (n mod 10)"
      by (auto simp: str_nat.simps [of n])
    with False "1.IH" show ?thesis
      by (auto simp: is_digit_digit_char)
  qed
qed

lemma str_nat_nonempty: "str_nat n \<noteq> []"
  by (simp add: str_nat.simps [of n])

lemma filter_digits_str_nat: "filter is_digit (str_nat n) = str_nat n"
  by (simp add: str_nat_digits)

lemma length_str_nat: "n < 10 ^ k \<Longrightarrow> 0 < k \<Longrightarrow> length (str_nat n) \<le> k"
proof (induction n arbitrary: k rule: str_nat.induct)
  case (1 n)
  show ?case
  proof (cases "n < 10")
    case True
    with "1.prems" show ?thesis by (simp add: str_nat.simps [of n])
  next
    case False
    obtain j where k: "k = Suc j" using "1.prems"(2) by (cases k) auto
    with "1.prems"(1) False have "0 < j" by (cases j) auto
    moreover from "1.prems"(1) k have "n div 10 < 10 ^ j"
      by (simp add: less_mult_imp_div_less mult.commute)
    ultimately have "length (str_nat (n div 10)) \<le> j"
      using "1.IH" False by simp
    with False k show ?thesis by (simp add: str_nat.simps [of n])
  qed
qed

lemma parse_digits_all_digits:
  "\<forall>c \<in> set ds. is_digit c \<Longrightarrow> ds \<noteq> [] \<or> prev \<Longrightarrow>
   parse_digits ds acc prev = Some (foldl (\<lambda>a c. a * 10 + digit_val c) acc ds)"
  by (induction ds arbitrary: acc prev) auto

lemma str_nat_value: "foldl (\<lambda>a c. a * 10 + digit_val c) 0 (str_nat n) = int n"
proof (induction n rule: str_nat.induct)
  case (1 n)
  show ?case
  proof (cases "n < 10")
    case True
    then show ?thesis by (simp add: str_nat.simps [of n] digit_val_digit_char)
  next
    case False
    with "1.IH" have "foldl (\<lambda>a c. a * 10 + digit_val c) 0 (str_nat n)
        = int (n div 10) * 10 + int (n mod 10)"
      by (simp add: str_nat.simps [of n] digit_val_digit_char)
    then show ?thesis by (simp add: zdiv_int zmod_int)
  qed
qed

lemma parse_digits_str_nat: "parse_digits (str_nat n) 0 False = Some (int n)"
  using parse_digits_all_digits [of "str_nat n" False 0]
  by (simp add: str_nat_digits str_nat_nonempty str_nat_value)

lemma int_strip_id:
  assumes "s \<noteq> []" "\<not> is_int_space (hd s)" "\<not> is_int_space (last s)"
  shows "int_strip s = s"
proof -
  from assms have a: "dropWhile is_int_space s = s"
    by (cases s) auto
  from assms have "dropWhile is_int_space (rev s) = rev s"
    by (cases "rev s") (auto simp: last_rev hd_rev)
  with a show ?thesis by (simp add: int_strip_def)
qed

lemma str_nat_ends:
  "\<not> is_int_space (hd (str_nat n))" "\<not> is_int_space (last (str_nat n))"
  using str_nat_nonempty [of n] str_nat_digits [of _ n] is_digit_not_int_space
  by (meson hd_in_set, meson last_in_set)

lemma int_strip_str_nat: "int_strip (str_nat n) = str_nat n"
  by (rule int_strip_id) (simp_all add: str_nat_nonempty str_nat_ends)

lemma minus_not_int_space: "\<not> is_int_space CHR ''-''"
  by (simp add: is_int_space_def)

lemma int_strip_minus_str_nat: "int_strip (CHR ''-'' # str_nat n) = CHR ''-'' # str_nat n"
  by (rule int_strip_id) (simp_all add: str_nat_nonempty str_nat_ends minus_not_int_space)

lemma py_int_py_str_digits:
  assumes "length (str_nat (nat \<bar>n\<bar>)) \<le> MAX_STR_DIGITS"
  shows "py_int (py_str n) = Inr n"
proof (cases "n < 0")
  case True
  with assms show ?thesis
    by (simp add: py_int_def py_str_def int_strip_minus_str_nat parse_digits_str_nat
        filter_digits_str_nat abs_if)
next
  case False
  obtain c cs where s: "str_nat (nat n) = c # cs"
    using str_nat_nonempty [of "nat n"] by (cases "str_nat (nat n)") auto
  then have "is_digit c" using str_nat_digits [of c "nat n"] by simp
  then have "c \<noteq> CHR ''-''" "c \<noteq> CHR ''+''" using is_digit_not_sign by auto
  moreover from False s have "int_strip (py_str n) = c # cs"
    using int_strip_str_nat [of "nat n"] by (simp add: py_str_def)
  moreover from False s have "parse_digits (c # cs) 0 False = Some n"
    using parse_digits_str_nat [of "nat n"] by simp
  moreover from False s assms have "\<not> MAX_STR_DIGITS < length (filter is_digit (c # cs))"
    using filter_digits_str_nat [of "nat n"] by (simp add: abs_if)
  ultimately show ?thesis
    by (simp add: py_int_def del: parse_digits.simps filter.simps)
qed

lemma py_int_py_str: "\<bar>n\<bar> < 10 ^ MAX_STR_DIGITS \<Longrightarrow> py_int (py_str n) = Inr n"
proof -
  assume "\<bar>n\<bar> < 10 ^ MAX_STR_DIGITS"
  then have "int (nat \<bar>n\<bar>) < int (10 ^ MAX_STR_DIGITS)"
    by simp
  then have "nat \<bar>n\<bar> < 10 ^ MAX_STR_DIGITS"
    by (simp only: of_nat_less_iff)
  moreover have "0 < MAX_STR_DIGITS"
    by (simp add: MAX_STR_DIGITS_def)
  ultimately have "length (str_nat (nat \<bar>n\<bar>)) \<le> MAX_STR_DIGITS"
    by (rule length_str_nat)
  then show ?thesis
    by (rule py_int_py_str_digits)
qed

lemma py_int_py_str_rowid: "\<bar>n\<bar> \<le> 2 ^ 63 \<Longrightarrow> py_int (py_str n) = Inr n"
proof -
  assume "\<bar>n\<bar> \<le> 2 ^ 63"
  moreover have "(2 :: int) ^ 63 < 10 ^ 19" by simp
  moreover have "(10 :: int) ^ 19 \<le> 10 ^ MAX_STR_DIGITS"
    by (rule power_increasing) (simp_all add: MAX_STR_DIGITS_def)
  ultimately have "\<bar>n\<bar> < 10 ^ MAX_STR_DIGITS" by linarith
  then show ?thesis by (rule py_int_py_str)
qed

lemma fold_max_ge: "(a::int) \<le> fold max xs a \<and> (\<forall>x \<in> set xs. x \<le> fold max xs a)"
proof (induction xs arbitrary: a)
  case Nil
  show ?case by simp
next
  case (Cons y ys)
  from Cons.IH [of "max y a"] show ?case by auto
qed

lemma fold_max_in: "fold max xs (a::int) \<in> insert a (set xs)"
proof (induction xs arbitrary: a)
  case Nil
  show ?case by simp
next
  case (Cons y ys)
  from Cons.IH [of "max y a"] show ?case by (auto simp: max_def split: if_splits)
qed

lemma next_rowid_above:
  assumes "\<forall>r \<in> set tbl. user_id r < 2 ^ 63 - 1" "r \<in> set tbl"
  shows "user_id r < next_rowid rnd tbl"
proof (cases tbl)
  case Nil
  with assms(2) show ?thesis by simp
next
  case (Cons u us)
  have "fold max (map user_id us) (user_id u) \<in> user_id ` set tbl"
    using fold_max_in [of "map user_id us" "user_id u"] Cons by auto
  with assms(1) have "fold max (map user_id us) (user_id u) < 2 ^ 63 - 1"
    by auto
  with Cons assms(2) fold_max_ge [of "user_id u" "map user_id us"] show ?thesis
    by (auto simp: next_rowid_def Let_def)
qed

lemma next_rowid_range:
  assumes "\<forall>r \<in> set tbl. - (2 ^ 63) \<le> user_id r \<and> user_id r < 2 ^ 63 - 1"
  shows "\<bar>next_rowid rnd tbl\<bar> \<le> 2 ^ 63"
proof (cases tbl)
  case Nil
  then show ?thesis by (simp add: next_rowid_def)
next
  case (Cons u us)
  have "fold max (map user_id us) (user_id u) \<in> user_id ` set tbl"
    using fold_max_in [of "map user_id us" "user_id u"] Cons by auto
  with assms have "- (2 ^ 63) \<le> fold max (map user_id us) (user_id u)
      \<and> fold max (map user_id us) (user_id u) < 2 ^ 63 - 1"
    by auto
  with Cons show ?thesis
    by (simp add: next_rowid_def Let_def abs_if)
qed

section \<open>Registration\<close>

lemma post_register_mismatch:
  "password \<noteq> password_confirm \<Longrightarrow>
   post_register pwd_ctx salt rnd now_db now_tok username_in email_in password password_confirm db =
     (Inr (HTMLResponse PasswordsDoNotMatch 400), db)"
  by (simp add: post_register_def)

lemma post_register_too_long:
  "MAX_PASSWORD_SIZE < length password \<Longrightarrow>
   post_register pwd_ctx salt rnd now_db now_tok username_in email_in password password db =
     (Inl PasswordSizeError, db)"
  by (simp add: post_register_def get_password_hash_def pwd_ctx_hash_def)

lemma post_register_conflict:
  assumes "length password \<le> MAX_PASSWORD_SIZE"
    and "\<exists>r \<in> set (table db). email r = lower (strip email_in)"
  shows "post_register pwd_ctx salt rnd now_db now_tok username_in email_in password password db =
     (Inr (HTMLResponse EmailAlreadyExists 400), db\<lparr>pending := None, inactive := False\<rparr>)"
  using assms
  by (simp add: post_register_def get_password_hash_def pwd_ctx_hash_def db_add_def
      db_commit_def insert_user_def db_rollback_def Let_def)

lemma post_register_fresh:
  assumes "length password \<le> MAX_PASSWORD_SIZE"
    and "\<forall>r \<in> set (table db). email r \<noteq> lower (strip email_in)"
  shows "post_register pwd_ctx salt rnd now_db now_tok username_in email_in password password db =
     (Inr (set_cookie (RedirectResponse ''/discussions'' 303)
            (access_cookie (create_access_token now_tok
               [(''sub'', JStr (py_str (next_rowid rnd (table db))))] None))),
      \<lparr>table = table db
                @ [new_row pwd_ctx salt rnd now_db username_in email_in password (table db)],
       pending = None, inactive = False\<rparr>)"
  using assms
  by (simp add: post_register_def get_password_hash_def pwd_ctx_hash_def db_add_def
      db_commit_def insert_user_def db_refresh_def new_row_def Let_def)

lemma create_access_token_default:
  "create_access_token now [(''sub'', v)] None =
     Signed ''HS256'' [(''sub'', v), (''exp'', JInt (now + 604800))] SECRET_KEY"
  by (simp add: create_access_token_def jwt_encode_def ALGORITHM_def
      ACCESS_TOKEN_EXPIRE_MINUTES_def timedelta_minutes_def)

lemma length_long_password: "length long_password = 4097"
  by (simp add: long_password_def)

text \<open>
  C8. A registration request whose password differs from its confirmation is answered
  with status 400 and the HTML fragment that says so, without cookie or redirect.
\<close>

theorem register_mismatch_400:
  assumes "password \<noteq> password_confirm"
  shows "\<exists>r. fst (post_register pwd_ctx salt rnd now_db now_tok username_in email_in password
                   password_confirm db) = Inr r
             \<and> status_code r = 400 \<and> body r = PasswordsDoNotMatch
             \<and> location r = None \<and> set_cookies r = []"
  using assms by (simp add: post_register_mismatch HTMLResponse_def)

theorem register_mismatch_400_witness:
  "''pw1'' \<noteq> ''pw2'' \<and>
   (\<exists>r. fst (post_register sample_ctx ''s3'' 77 3000 3001 ''carol'' ''carol@x.com'' ''pw1'' ''pw2''
               (get_db [alice])) = Inr r
        \<and> status_code r = 400 \<and> body r = PasswordsDoNotMatch
        \<and> location r = None \<and> set_cookies r = [])"
  using register_mismatch_400 [where password = "''pw1''" and password_confirm = "''pw2''"
      and pwd_ctx = sample_ctx and salt = "''s3''" and rnd = 77 and now_db = 3000
      and now_tok = 3001 and username_in = "''carol''" and email_in = "''carol@x.com''"
      and db = "get_db [alice]"]
  by simp

text \<open>
  C9. With a password that differs from its confirmation the handler leaves the session
  as it found it, so the users table in the file is the same list of rows afterwards;
  and its result is the same whatever the hasher, the salt and the random row id are,
  that is, no hash of the password enters it.
\<close>

theorem register_mismatch_no_store_interaction:
  assumes "password \<noteq> password_confirm"
  shows "snd (post_register pwd_ctx salt rnd now_db now_tok username_in email_in password
                password_confirm db) = db
       \<and> snd (register_request pwd_ctx salt rnd now_db now_tok username_in email_in password
                password_confirm tbl) = tbl
       \<and> post_register pwd_ctx' salt' rnd' now_db now_tok username_in email_in password
                password_confirm db
         = post_register pwd_ctx salt rnd now_db now_tok username_in email_in password
                password_confirm db"
  using assms
  by (simp add: post_register_mismatch register_request_def get_db_def db_close_def)

theorem register_mismatch_no_store_interaction_witness:
  "''pw1'' \<noteq> ''pw2'' \<and>
   snd (post_register sample_ctx ''s3'' 77 3000 3001 ''carol'' ''carol@x.com'' ''pw1'' ''pw2''
          (get_db [alice, bob])) = get_db [alice, bob]
   \<and> snd (register_request sample_ctx ''s3'' 77 3000 3001 ''carol'' ''carol@x.com'' ''pw1'' ''pw2''
          [alice, bob]) = [alice, bob]"
  using register_mismatch_no_store_interaction [where password = "''pw1''"
      and password_confirm = "''pw2''" and pwd_ctx = sample_ctx and salt = "''s3''" and rnd = 77
      and now_db = 3000 and now_tok = 3001 and username_in = "''carol''"
      and email_in = "''carol@x.com''" and db = "get_db [alice, bob]" and tbl = "[alice, bob]"]
  by simp

text \<open>
  C1 as stated fails in two ways. A request that repeats a stored email and whose two
  passwords differ is answered by the password check, which comes first, with the
  fragment about the passwords and not with the one about the email. And a request that
  repeats a stored email with a password of 4097 characters, confirmed, ends in the
  hasher's \<^verbatim>\<open>PasswordSizeError\<close> at line 167, before anything is added to the session.
\<close>

theorem register_duplicate_email_counterexample:
  "email alice = lower (strip '' Alice@X.com '')
   \<and> alice \<in> set [alice]
   \<and> fst (register_request sample_ctx ''s3'' 77 3000 3001 ''al'' '' Alice@X.com '' ''pw1'' ''pw2''
            [alice]) = Inr (HTMLResponse PasswordsDoNotMatch 400)
   \<and> HTMLResponse PasswordsDoNotMatch 400 \<noteq> HTMLResponse EmailAlreadyExists 400
   \<and> fst (register_request sample_ctx ''s3'' 77 3000 3001 ''al'' '' Alice@X.com '' long_password
            long_password [alice]) = Inl PasswordSizeError"
proof -
  have "email alice = lower (strip '' Alice@X.com '')"
    by code_simp
  moreover have "fst (register_request sample_ctx ''s3'' 77 3000 3001 ''al'' '' Alice@X.com ''
      ''pw1'' ''pw2'' [alice]) = Inr (HTMLResponse PasswordsDoNotMatch 400)"
    by (simp add: register_request_def post_register_mismatch)
  moreover have "fst (register_request sample_ctx ''s3'' 77 3000 3001 ''al'' '' Alice@X.com ''
      long_password long_password [alice]) = Inl PasswordSizeError"
    by (simp add: register_request_def post_register_too_long length_long_password
        MAX_PASSWORD_SIZE_def)
  ultimately show ?thesis
    by (simp add: HTMLResponse_def)
qed

text \<open>
  C1, amended. If the password equals its confirmation and has at most 4096 characters,
  and the email, stripped and lowercased, is the email of a stored row, then the insert
  is refused with \<^verbatim>\<open>IntegrityError\<close>, the handler rolls the session back to the state in
  which it was opened (nothing pending, active, same table), the response is status 400
  with the fragment about the existing email, and the file holds the same rows as
  before, so as many as before.
\<close>

theorem register_duplicate_email_conflict:
  assumes "password = password_confirm"
    and "length password \<le> 4096"
    and "\<exists>r \<in> set tbl. email r = lower (strip email_in)"
  shows "register_request pwd_ctx salt rnd now_db now_tok username_in email_in password
           password_confirm tbl = (Inr (HTMLResponse EmailAlreadyExists 400), tbl)
       \<and> status_code (HTMLResponse EmailAlreadyExists 400) = 400
       \<and> post_register pwd_ctx salt rnd now_db now_tok username_in email_in password
           password_confirm (get_db tbl) = (Inr (HTMLResponse EmailAlreadyExists 400), get_db tbl)
       \<and> fst (db_commit rnd now_db (db_add (get_db tbl)
                \<lparr>t_username = strip username_in, t_email = lower (strip email_in),
                 t_hashed_password = hash_fn pwd_ctx password salt\<rparr>))
           = Inl IntegrityError
       \<and> length (snd (register_request pwd_ctx salt rnd now_db now_tok username_in email_in
           password password_confirm tbl)) = length tbl"
proof -
  from assms(2) have len: "length password \<le> MAX_PASSWORD_SIZE"
    by (simp add: MAX_PASSWORD_SIZE_def)
  from assms(3) have ex: "\<exists>r \<in> set (table (get_db tbl)). email r = lower (strip email_in)"
    by (simp add: get_db_def)
  have pr: "post_register pwd_ctx salt rnd now_db now_tok username_in email_in password
           password_confirm (get_db tbl) = (Inr (HTMLResponse EmailAlreadyExists 400), get_db tbl)"
    using post_register_conflict [OF len ex] assms(1) by (simp add: get_db_def)
  then have rr: "register_request pwd_ctx salt rnd now_db now_tok username_in email_in password
           password_confirm tbl = (Inr (HTMLResponse EmailAlreadyExists 400), tbl)"
    by (simp add: register_request_def db_close_def get_db_def)
  have cm: "fst (db_commit rnd now_db (db_add (get_db tbl)
                \<lparr>t_username = strip username_in, t_email = lower (strip email_in),
                 t_hashed_password = hash_fn pwd_ctx password salt\<rparr>))
           = Inl IntegrityError"
    using assms(3) by (simp add: db_commit_def db_add_def get_db_def insert_user_def)
  show ?thesis
    using pr rr cm by (simp add: HTMLResponse_def)
qed

theorem register_duplicate_email_conflict_witness:
  "''pw1'' = ''pw1'' \<and> length ''pw1'' \<le> 4096
   \<and> (\<exists>r \<in> set [alice]. email r = lower (strip '' Alice@X.com ''))
   \<and> register_request sample_ctx ''s3'' 77 3000 3001 ''al'' '' Alice@X.com '' ''pw1'' ''pw1''
       [alice]
       = (Inr (HTMLResponse EmailAlreadyExists 400), [alice])"
proof -
  have h: "\<exists>r \<in> set [alice]. email r = lower (strip '' Alice@X.com '')"
    by code_simp
  have l: "length ''pw1'' \<le> 4096" by simp
  show ?thesis
    using h l register_duplicate_email_conflict [OF refl l h, where pwd_ctx = sample_ctx
        and salt = "''s3''" and rnd = 77 and now_db = 3000 and now_tok = 3001
        and username_in = "''al''"]
    by simp
qed

text \<open>
  C3 as stated fails for a long password: with a fresh email and a confirmed password
  of 4097 characters the hasher raises \<^verbatim>\<open>PasswordSizeError\<close> at line 167, nothing catches
  it, and no row is stored.
\<close>

theorem register_fresh_email_counterexample:
  "email alice \<noteq> lower (strip ''carol@x.com'')
   \<and> register_request sample_ctx ''s3'' 77 3000 3001 ''carol'' ''carol@x.com'' long_password
        long_password [alice] = (Inl PasswordSizeError, [alice])"
proof -
  have "email alice \<noteq> lower (strip ''carol@x.com'')"
    by code_simp
  then show ?thesis
    by (simp add: register_request_def post_register_too_long length_long_password
        MAX_PASSWORD_SIZE_def db_close_def get_db_def)
qed

text \<open>
  C3, amended. If the password equals its confirmation and has at most 4096 characters,
  and no stored row has the stripped and lowercased email, the request appends one row
  with the stripped username, the stripped and lowercased email, the hasher's output for
  the password and the insertion time, and answers 303 to \<^verbatim>\<open>/discussions\<close> with one
  cookie \<^verbatim>\<open>access_token\<close>: http-only, same-site lax, max-age 604800, whose value is signed
  under the application's key and carries the new id in decimal as \<^verbatim>\<open>sub\<close> and the issue
  time plus 604800 as \<^verbatim>\<open>exp\<close>. What is stored as hash differs from the plaintext whenever
  the hasher's output does. When the stored ids are 64-bit and below the last rowid,
  the new id is above all of them and \<^verbatim>\<open>int\<close> reads the subject back as the id.
\<close>

theorem register_fresh_email_succeeds:
  assumes "password = password_confirm"
    and "length password \<le> 4096"
    and "\<forall>r \<in> set tbl. email r \<noteq> lower (strip email_in)"
  shows "register_request pwd_ctx salt rnd now_db now_tok username_in email_in password
           password_confirm tbl =
         (Inr \<lparr>status_code = 303, body = NoContent, location = Some ''/discussions'',
               set_cookies =
                 [\<lparr>cookie_key = ''access_token'',
                   cookie_value =
                     Signed ''HS256''
                       [(''sub'', JStr (py_str (next_rowid rnd tbl))),
                        (''exp'', JInt (now_tok + 604800))] SECRET_KEY,
                   httponly = True, samesite = ''lax'', max_age = 604800\<rparr>],
               deleted_cookies = []\<rparr>,
          tbl @ [\<lparr>user_id = next_rowid rnd tbl, username = strip username_in,
                  email = lower (strip email_in),
                  hashed_password = hash_fn pwd_ctx password salt,
                  created_at = Some now_db\<rparr>])
       \<and> (hash_fn pwd_ctx password salt \<noteq> password \<longrightarrow>
            hashed_password (last (snd (register_request pwd_ctx salt rnd now_db now_tok
              username_in email_in password password_confirm tbl))) \<noteq> password)
       \<and> ((\<forall>r \<in> set tbl. - (2 ^ 63) \<le> user_id r \<and> user_id r < 2 ^ 63 - 1) \<longrightarrow>
            (\<forall>r \<in> set tbl. user_id r < next_rowid rnd tbl)
            \<and> int_of_jval (JStr (py_str (next_rowid rnd tbl))) = Inr (next_rowid rnd tbl))"
proof -
  from assms(2) have len: "length password \<le> MAX_PASSWORD_SIZE"
    by (simp add: MAX_PASSWORD_SIZE_def)
  from assms(3) have fr: "\<forall>r \<in> set (table (get_db tbl)). email r \<noteq> lower (strip email_in)"
    by (simp add: get_db_def)
  have reg: "register_request pwd_ctx salt rnd now_db now_tok username_in email_in password
           password_confirm tbl =
         (Inr \<lparr>status_code = 303, body = NoContent, location = Some ''/discussions'',
               set_cookies =
                 [\<lparr>cookie_key = ''access_token'',
                   cookie_value =
                     Signed ''HS256''
                       [(''sub'', JStr (py_str (next_rowid rnd tbl))),
                        (''exp'', JInt (now_tok + 604800))] SECRET_KEY,
                   httponly = True, samesite = ''lax'', max_age = 604800\<rparr>],
               deleted_cookies = []\<rparr>,
          tbl @ [\<lparr>user_id = next_rowid rnd tbl, username = strip username_in,
                  email = lower (strip email_in),
                  hashed_password = hash_fn pwd_ctx password salt,
                  created_at = Some now_db\<rparr>])"
    using post_register_fresh [OF len fr] assms(1)
    by (simp add: register_request_def db_close_def get_db_def create_access_token_default
        set_cookie_def RedirectResponse_def access_cookie_def ACCESS_TOKEN_EXPIRE_MINUTES_def
        new_row_def)
  have ids: "(\<forall>r \<in> set tbl. - (2 ^ 63) \<le> user_id r \<and> user_id r < 2 ^ 63 - 1) \<longrightarrow>
            (\<forall>r \<in> set tbl. user_id r < next_rowid rnd tbl)
            \<and> int_of_jval (JStr (py_str (next_rowid rnd tbl))) = Inr (next_rowid rnd tbl)"
  proof
    assume b: "\<forall>r \<in> set tbl. - (2 ^ 63) \<le> user_id r \<and> user_id r < 2 ^ 63 - 1"
    then have "\<forall>r \<in> set tbl. user_id r < 2 ^ 63 - 1" by blast
    then have "\<forall>r \<in> set tbl. user_id r < next_rowid rnd tbl"
      using next_rowid_above [of tbl _ rnd] by blast
    moreover have "int_of_jval (JStr (py_str (next_rowid rnd tbl))) = Inr (next_rowid rnd tbl)"
      using py_int_py_str_rowid [OF next_rowid_range [OF b, of rnd]]
      by (simp add: int_of_jval_def)
    ultimately show "(\<forall>r \<in> set tbl. user_id r < next_rowid rnd tbl)
            \<and> int_of_jval (JStr (py_str (next_rowid rnd tbl))) = Inr (next_rowid rnd tbl)"
      by blast
  qed
  from reg ids show ?thesis by simp
qed

theorem register_fresh_email_succeeds_witness:
  "''pw3'' = ''pw3'' \<and> length ''pw3'' \<le> 4096
   \<and> email alice \<noteq> lower (strip '' Carol@X.com '')
   \<and> email bob \<noteq> lower (strip '' Carol@X.com '')
   \<and> hash_fn sample_ctx ''pw3'' ''s3'' \<noteq> ''pw3''
   \<and> - (2 ^ 63) \<le> user_id alice \<and> user_id alice < 2 ^ 63 - 1
   \<and> - (2 ^ 63) \<le> user_id bob \<and> user_id bob < 2 ^ 63 - 1
   \<and> snd (register_request sample_ctx ''s3'' 77 3000 3001 '' carol '' '' Carol@X.com '' ''pw3''
         ''pw3'' [alice, bob])
       = [alice, bob, \<lparr>user_id = 3, username = ''carol'', email = ''carol@x.com'',
                  hashed_password = ''s3$3wp'', created_at = Some 3000\<rparr>]
   \<and> int_of_jval (JStr (py_str (next_rowid 77 [alice, bob]))) = Inr (next_rowid 77 [alice, bob])"
proof -
  have h: "\<forall>r \<in> set [alice, bob]. email r \<noteq> lower (strip '' Carol@X.com '')"
    by code_simp
  have l: "length ''pw3'' \<le> 4096" by simp
  have b: "\<forall>r \<in> set [alice, bob]. - (2 ^ 63) \<le> user_id r \<and> user_id r < 2 ^ 63 - 1"
    by (simp add: alice_def bob_def)
  have e: "next_rowid 77 [alice, bob] = 3" "strip '' carol '' = ''carol''"
    "lower (strip '' Carol@X.com '') = ''carol@x.com''"
    "hash_fn sample_ctx ''pw3'' ''s3'' = ''s3$3wp''"
    by code_simp+
  have h': "email alice \<noteq> lower (strip '' Carol@X.com '')"
    "email bob \<noteq> lower (strip '' Carol@X.com '')"
    using h by simp_all
  have b': "- (2 ^ 63) \<le> user_id alice \<and> user_id alice < 2 ^ 63 - 1"
    "- (2 ^ 63) \<le> user_id bob \<and> user_id bob < 2 ^ 63 - 1"
    using b by simp_all
  show ?thesis
    using h' b' b register_fresh_email_succeeds [OF refl l h, where pwd_ctx = sample_ctx
        and salt = "''s3''" and rnd = 77 and now_db = 3000 and now_tok = 3001
        and username_in = "'' carol ''"]
    by (simp add: e)
qed

section \<open>Login\<close>

lemma find_distinct_email:
  assumes "distinct (map email tbl)" "u \<in> set tbl"
  shows "find (\<lambda>r. email r = email u) tbl = Some u"
  using assms
proof (induction tbl)
  case Nil
  then show ?case by simp
next
  case (Cons a tbl)
  then show ?case by (cases "a = u") force+
qed

lemma find_None_iff_no_email:
  "(find (\<lambda>r. email r = e) tbl = None) = (\<forall>r \<in> set tbl. email r \<noteq> e)"
  by (auto simp: find_None_iff)

lemma post_login_cases:
  "post_login pwd_ctx now email_in password db =
     (case find (\<lambda>r. email r = lower (strip email_in)) (table db) of
        None \<Rightarrow> Inr (HTMLResponse UserNotFound 401)
      | Some row \<Rightarrow>
          (case verify_password pwd_ctx password (hashed_password row) of
             Inl e \<Rightarrow> Inl e
           | Inr ok \<Rightarrow>
               Inr (if ok
                    then \<lparr>status_code = 303, body = NoContent, location = Some ''/discussions'',
                          set_cookies =
                            [\<lparr>cookie_key = ''access_token'',
                              cookie_value =
                                Signed ''HS256''
                                  [(''sub'', JStr (py_str (user_id row))),
                                   (''exp'', JInt (now + 604800))] SECRET_KEY,
                              httponly = True, samesite = ''lax'', max_age = 604800\<rparr>],
                          deleted_cookies = []\<rparr>
                    else HTMLResponse WrongPassword 401)))"
  by (simp add: post_login_def query_first_by_email_def
      create_access_token_default set_cookie_def RedirectResponse_def access_cookie_def
      ACCESS_TOKEN_EXPIRE_MINUTES_def split: option.splits sum.splits)

lemma verify_password_returns:
  "length password \<le> 4096 \<Longrightarrow> identify_fn pwd_ctx hashed \<Longrightarrow>
   verify_password pwd_ctx password hashed = Inr (verify_fn pwd_ctx password hashed)"
  by (simp add: verify_password_def pwd_ctx_verify_def MAX_PASSWORD_SIZE_def)

text \<open>
  C4 as stated fails for a long password: alice is stored, the password submitted for
  her email has 4097 characters and is not hers, and the request ends in the verifier's
  \<^verbatim>\<open>PasswordSizeError\<close> at line 200 instead of the 401 page.
\<close>

theorem login_counterexample:
  "query_first_by_email (get_db [alice, bob]) (lower (strip '' Alice@X.com '')) = Some alice
   \<and> long_password \<noteq> ''pw1''
   \<and> post_login sample_ctx 5000 '' Alice@X.com '' long_password (get_db [alice, bob])
       = Inl PasswordSizeError"
proof -
  have q: "query_first_by_email (get_db [alice, bob]) (lower (strip '' Alice@X.com ''))
      = Some alice"
    by code_simp
  have i: "identify_fn sample_ctx (hashed_password alice)"
    by code_simp
  have "length long_password \<noteq> length ''pw1''"
    by (simp add: length_long_password)
  then have n: "long_password \<noteq> ''pw1''" by fastforce
  from q i have "post_login sample_ctx 5000 '' Alice@X.com '' long_password (get_db [alice, bob])
       = Inl PasswordSizeError"
    by (simp add: post_login_def verify_password_def pwd_ctx_verify_def length_long_password
        MAX_PASSWORD_SIZE_def)
  with q n show ?thesis by simp
qed

text \<open>
  C4, amended. For every session and every login request: if no row has the stripped
  and lowercased email, the answer is status 401 (user not found). If the query finds
  a row, the password has at most 4096 characters and the stored hash is one the hasher
  recognises, then the verifier returns, and the answer is status 401 (wrong password)
  when it returns false and 303 to \<^verbatim>\<open>/discussions\<close> with the \<^verbatim>\<open>access_token\<close> cookie for
  that row's id when it returns true. With emails distinct, as the unique column keeps
  them, the row the query finds is the row that has the email.
\<close>

theorem login_outcomes:
  "((\<forall>r \<in> set (table db). email r \<noteq> lower (strip email_in)) \<longrightarrow>
      post_login pwd_ctx now email_in password db = Inr (HTMLResponse UserNotFound 401)
      \<and> status_code (HTMLResponse UserNotFound 401) = 401)
   \<and> (query_first_by_email db (lower (strip email_in)) = Some row
        \<and> length password \<le> 4096 \<and> identify_fn pwd_ctx (hashed_password row)
        \<and> \<not> verify_fn pwd_ctx password (hashed_password row) \<longrightarrow>
      verify_password pwd_ctx password (hashed_password row) = Inr False
      \<and> post_login pwd_ctx now email_in password db = Inr (HTMLResponse WrongPassword 401)
      \<and> status_code (HTMLResponse WrongPassword 401) = 401)
   \<and> (query_first_by_email db (lower (strip email_in)) = Some row
        \<and> length password \<le> 4096 \<and> identify_fn pwd_ctx (hashed_password row)
        \<and> verify_fn pwd_ctx password (hashed_password row) \<longrightarrow>
      verify_password pwd_ctx password (hashed_password row) = Inr True
      \<and> post_login pwd_ctx now email_in password db =
        Inr \<lparr>status_code = 303, body = NoContent, location = Some ''/discussions'',
             set_cookies =
               [\<lparr>cookie_key = ''access_token'',
                 cookie_value =
                   Signed ''HS256''
                     [(''sub'', JStr (py_str (user_id row))), (''exp'', JInt (now + 604800))]
                     SECRET_KEY,
                 httponly = True, samesite = ''lax'', max_age = 604800\<rparr>],
             deleted_cookies = []\<rparr>)
   \<and> (distinct (map email (table db)) \<and> row \<in> set (table db)
        \<and> email row = lower (strip email_in) \<longrightarrow>
      query_first_by_email db (lower (strip email_in)) = Some row)"
proof -
  have a: "(\<forall>r \<in> set (table db). email r \<noteq> lower (strip email_in)) \<longrightarrow>
      post_login pwd_ctx now email_in password db = Inr (HTMLResponse UserNotFound 401)"
    by (simp add: post_login_cases find_None_iff_no_email [symmetric])
  have b: "query_first_by_email db (lower (strip email_in)) = Some row
        \<and> length password \<le> 4096 \<and> identify_fn pwd_ctx (hashed_password row)
        \<and> \<not> verify_fn pwd_ctx password (hashed_password row) \<longrightarrow>
      verify_password pwd_ctx password (hashed_password row) = Inr False
      \<and> post_login pwd_ctx now email_in password db = Inr (HTMLResponse WrongPassword 401)"
    by (simp add: post_login_cases query_first_by_email_def verify_password_returns)
  have c: "query_first_by_email db (lower (strip email_in)) = Some row
        \<and> length password \<le> 4096 \<and> identify_fn pwd_ctx (hashed_password row)
        \<and> verify_fn pwd_ctx password (hashed_password row) \<longrightarrow>
      verify_password pwd_ctx password (hashed_password row) = Inr True
      \<and> post_login pwd_ctx now email_in password db =
        Inr \<lparr>status_code = 303, body = NoContent, location = Some ''/discussions'',
             set_cookies =
               [\<lparr>cookie_key = ''access_token'',
                 cookie_value =
                   Signed ''HS256''
                     [(''sub'', JStr (py_str (user_id row))), (''exp'', JInt (now + 604800))]
                     SECRET_KEY,
                 httponly = True, samesite = ''lax'', max_age = 604800\<rparr>],
             deleted_cookies = []\<rparr>"
    by (simp add: post_login_cases query_first_by_email_def verify_password_returns)
  have d: "distinct (map email (table db)) \<and> row \<in> set (table db)
        \<and> email row = lower (strip email_in) \<longrightarrow>
      query_first_by_email db (lower (strip email_in)) = Some row"
    using find_distinct_email [of "table db" row] by (auto simp: query_first_by_email_def)
  have e: "status_code (HTMLResponse UserNotFound 401) = 401"
    "status_code (HTMLResponse WrongPassword 401) = 401"
    by (simp_all add: HTMLResponse_def)
  from a b c d e show ?thesis
    by blast
qed

theorem login_outcomes_witness:
  "(table (get_db [alice, bob]) = [alice, bob]
     \<and> email alice \<noteq> lower (strip '' Carol@x.com'')
     \<and> email bob \<noteq> lower (strip '' Carol@x.com'')
     \<and> post_login sample_ctx 5000 '' Carol@x.com'' ''pw1'' (get_db [alice, bob])
         = Inr (HTMLResponse UserNotFound 401))
   \<and> (query_first_by_email (get_db [alice, bob]) (lower (strip '' Alice@X.com '')) = Some alice
     \<and> length ''pw2'' \<le> 4096 \<and> identify_fn sample_ctx (hashed_password alice)
     \<and> \<not> verify_fn sample_ctx ''pw2'' (hashed_password alice)
     \<and> post_login sample_ctx 5000 '' Alice@X.com '' ''pw2'' (get_db [alice, bob])
         = Inr (HTMLResponse WrongPassword 401))
   \<and> (length ''pw1'' \<le> 4096
     \<and> verify_fn sample_ctx ''pw1'' (hashed_password alice)
     \<and> verify_password sample_ctx ''pw1'' (hashed_password alice) = Inr True)
   \<and> (distinct (map email (table (get_db [alice, bob])))
     \<and> alice \<in> set (table (get_db [alice, bob]))
     \<and> email alice = lower (strip '' Alice@X.com ''))"
proof -
  have h1: "\<forall>r \<in> set (table (get_db [alice, bob])). email r \<noteq> lower (strip '' Carol@x.com'')"
    by code_simp
  have h2: "query_first_by_email (get_db [alice, bob]) (lower (strip '' Alice@X.com ''))
      = Some alice"
    by code_simp
  have h3: "\<not> verify_fn sample_ctx ''pw2'' (hashed_password alice)"
    "identify_fn sample_ctx (hashed_password alice)"
    "length ''pw2'' \<le> 4096" "length ''pw1'' \<le> 4096"
    by code_simp+
  have h4: "verify_fn sample_ctx ''pw1'' (hashed_password alice)"
    by code_simp
  have h5: "distinct (map email (table (get_db [alice, bob])))"
    "alice \<in> set (table (get_db [alice, bob]))"
    "email alice = lower (strip '' Alice@X.com '')"
    by code_simp+
  have w1: "post_login sample_ctx 5000 '' Carol@x.com'' ''pw1'' (get_db [alice, bob])
      = Inr (HTMLResponse UserNotFound 401)"
    using h1 login_outcomes [where db = "get_db [alice, bob]" and email_in = "'' Carol@x.com''"
        and pwd_ctx = sample_ctx and now = 5000 and password = "''pw1''"]
    by blast
  have w2: "post_login sample_ctx 5000 '' Alice@X.com '' ''pw2'' (get_db [alice, bob])
      = Inr (HTMLResponse WrongPassword 401)"
    using h2 h3 login_outcomes [where db = "get_db [alice, bob]" and email_in = "'' Alice@X.com ''"
        and pwd_ctx = sample_ctx and now = 5000 and password = "''pw2''" and row = alice]
    by blast
  have w3: "verify_password sample_ctx ''pw1'' (hashed_password alice) = Inr True"
    using h2 h3 h4 login_outcomes [where db = "get_db [alice, bob]"
        and email_in = "'' Alice@X.com ''" and pwd_ctx = sample_ctx and now = 5000
        and password = "''pw1''" and row = alice]
    by blast
  have h1': "table (get_db [alice, bob]) = [alice, bob]"
    "email alice \<noteq> lower (strip '' Carol@x.com'')"
    "email bob \<noteq> lower (strip '' Carol@x.com'')"
    by code_simp+
  from h1' h2 h3 h4 h5 w1 w2 w3 show ?thesis
    by blast
qed

lemma register_request_table:
  "snd (register_request pwd_ctx salt rnd now_db now_tok username_in email_in password
          password_confirm tbl) = tbl
   \<or> (password = password_confirm \<and> (\<forall>r \<in> set tbl. email r \<noteq> lower (strip email_in))
      \<and> snd (register_request pwd_ctx salt rnd now_db now_tok username_in email_in password
            password_confirm tbl)
          = tbl @ [new_row pwd_ctx salt rnd now_db username_in email_in password tbl])"
proof (cases "password = password_confirm")
  case False
  then show ?thesis
    by (simp add: register_request_def post_register_mismatch db_close_def get_db_def)
next
  case True
  show ?thesis
  proof (cases "MAX_PASSWORD_SIZE < length password")
    case long: True
    from post_register_too_long [OF this] True show ?thesis
      by (simp add: register_request_def db_close_def get_db_def)
  next
    case False
    then have len: "length password \<le> MAX_PASSWORD_SIZE" by simp
    show ?thesis
    proof (cases "\<exists>r \<in> set tbl. email r = lower (strip email_in)")
      case ex: True
      then have "\<exists>r \<in> set (table (get_db tbl)). email r = lower (strip email_in)"
        by (simp add: get_db_def)
      from post_register_conflict [OF len this] True show ?thesis
        by (simp add: register_request_def db_close_def get_db_def)
    next
      case False
      then have "\<forall>r \<in> set (table (get_db tbl)). email r \<noteq> lower (strip email_in)"
        by (simp add: get_db_def)
      from post_register_fresh [OF len this] True False show ?thesis
        by (simp add: register_request_def db_close_def get_db_def)
    qed
  qed
qed

lemma register_request_status:
  assumes "fst (register_request pwd_ctx salt rnd now_db now_tok username_in email_in password
          password_confirm tbl) = Inr resp"
    and "status_code resp = 303"
  shows "password = password_confirm \<and> length password \<le> MAX_PASSWORD_SIZE
       \<and> (\<forall>r \<in> set tbl. email r \<noteq> lower (strip email_in))"
proof (cases "password = password_confirm")
  case False
  with assms show ?thesis
    by (auto simp: register_request_def post_register_mismatch HTMLResponse_def)
next
  case True
  show ?thesis
  proof (cases "MAX_PASSWORD_SIZE < length password")
    case long: True
    from post_register_too_long [OF this] True assms show ?thesis
      by (simp add: register_request_def)
  next
    case False
    then have len: "length password \<le> MAX_PASSWORD_SIZE" by simp
    show ?thesis
    proof (cases "\<exists>r \<in> set tbl. email r = lower (strip email_in)")
      case ex: True
      then have "\<exists>r \<in> set (table (get_db tbl)). email r = lower (strip email_in)"
        by (simp add: get_db_def)
      from post_register_conflict [OF len this] True assms show ?thesis
        by (auto simp: register_request_def HTMLResponse_def)
    next
      case False
      with True len show ?thesis by simp
    qed
  qed
qed

lemma find_append_Some: "find P xs = Some u \<Longrightarrow> find P (xs @ ys) = Some u"
  by (induction xs) (auto split: if_splits)

lemma find_append_None: "find P xs = None \<Longrightarrow> find P (xs @ ys) = find P ys"
  by (induction xs) (auto split: if_splits)

lemma evolves_find:
  "evolves tbl tbl' \<Longrightarrow> find P tbl = Some u \<Longrightarrow> find P tbl' = Some u"
proof (induction rule: evolves.induct)
  case (same tbl)
  then show ?case by simp
next
  case (registered tbl tbl' pwd_ctx salt rnd now_db now_tok username_in email_in password
      password_confirm)
  then have "find P tbl' = Some u" by simp
  with register_request_table [of pwd_ctx salt rnd now_db now_tok username_in email_in password
      password_confirm tbl']
  show ?case by (auto simp: find_append_Some)
qed

text \<open>
  C10. Registration stores \<open>lower (strip e)\<close> and login looks up \<open>lower (strip e')\<close>.
  So after a registration with raw email \<open>e\<close> has succeeded, in the resulting state of
  the file and in every state that follows it by further registration requests, a login
  with any \<open>e'\<close> that has the same stripped and lowercased form finds exactly the row
  that registration created, and answers according to the password check against that
  row's hash.
\<close>

theorem login_finds_registered_user:
  assumes "fst (register_request pwd_ctx salt rnd now_db now_tok username_in e password
                 password_confirm tbl) = Inr resp"
    and "status_code resp = 303"
    and "evolves (snd (register_request pwd_ctx salt rnd now_db now_tok username_in e password
                 password_confirm tbl)) tbl'"
    and "lower (strip e') = lower (strip e)"
  shows "query_first_by_email (get_db tbl') (lower (strip e'))
           = Some (new_row pwd_ctx salt rnd now_db username_in e password tbl)
       \<and> new_row pwd_ctx salt rnd now_db username_in e password tbl
           \<in> set (snd (register_request pwd_ctx salt rnd now_db now_tok username_in e password
                 password_confirm tbl))
       \<and> email (new_row pwd_ctx salt rnd now_db username_in e password tbl) = lower (strip e)
       \<and> post_login pwd_ctx' now e' password' (get_db tbl')
           = (case verify_password pwd_ctx' password'
                   (hashed_password (new_row pwd_ctx salt rnd now_db username_in e password tbl)) of
                Inl err \<Rightarrow> Inl err
              | Inr ok \<Rightarrow>
                  Inr (if ok
                       then \<lparr>status_code = 303, body = NoContent,
                             location = Some ''/discussions'',
                             set_cookies =
                               [\<lparr>cookie_key = ''access_token'',
                                 cookie_value =
                                   Signed ''HS256''
                                     [(''sub'', JStr (py_str (next_rowid rnd tbl))),
                                      (''exp'', JInt (now + 604800))] SECRET_KEY,
                                 httponly = True, samesite = ''lax'', max_age = 604800\<rparr>],
                             deleted_cookies = []\<rparr>
                       else HTMLResponse WrongPassword 401))"
proof -
  let ?row = "new_row pwd_ctx salt rnd now_db username_in e password tbl"
  let ?tbl1 = "snd (register_request pwd_ctx salt rnd now_db now_tok username_in e password
                 password_confirm tbl)"
  from register_request_status [OF assms(1,2)]
  have ok: "password = password_confirm" "length password \<le> MAX_PASSWORD_SIZE"
    "\<forall>r \<in> set tbl. email r \<noteq> lower (strip e)"
    by auto
  from ok have fr: "\<forall>r \<in> set (table (get_db tbl)). email r \<noteq> lower (strip e)"
    by (simp add: get_db_def)
  from post_register_fresh [OF ok(2) fr] ok(1) have t1: "?tbl1 = tbl @ [?row]"
    by (simp add: register_request_def db_close_def get_db_def)
  have em: "email ?row = lower (strip e)" by (simp add: new_row_def)
  from ok(3) have "find (\<lambda>r. email r = lower (strip e)) tbl = None"
    by (simp add: find_None_iff_no_email)
  then have "find (\<lambda>r. email r = lower (strip e)) ?tbl1 = Some ?row"
    using t1 em by (simp add: find_append_None)
  from evolves_find [OF assms(3) this]
  have f: "find (\<lambda>r. email r = lower (strip e)) tbl' = Some ?row" .
  then have q: "query_first_by_email (get_db tbl') (lower (strip e')) = Some ?row"
    using assms(4) by (simp add: query_first_by_email_def get_db_def)
  have "user_id ?row = next_rowid rnd tbl" by (simp add: new_row_def)
  with f assms(4) have p: "post_login pwd_ctx' now e' password' (get_db tbl')
           = (case verify_password pwd_ctx' password' (hashed_password ?row) of
                Inl err \<Rightarrow> Inl err
              | Inr ok \<Rightarrow>
                  Inr (if ok
                       then \<lparr>status_code = 303, body = NoContent,
                             location = Some ''/discussions'',
                             set_cookies =
                               [\<lparr>cookie_key = ''access_token'',
                                 cookie_value =
                                   Signed ''HS256''
                                     [(''sub'', JStr (py_str (next_rowid rnd tbl))),
                                      (''exp'', JInt (now + 604800))] SECRET_KEY,
                                 httponly = True, samesite = ''lax'', max_age = 604800\<rparr>],
                             deleted_cookies = []\<rparr>
                       else HTMLResponse WrongPassword 401))"
    by (simp add: post_login_cases get_db_def split: sum.splits)
  from q t1 em p show ?thesis by simp
qed

theorem login_finds_registered_user_witness:
  "fst (register_request sample_ctx ''s3'' 77 3000 3001 ''carol'' ''Carol@X.com'' ''pw3'' ''pw3''
         [alice])
     = Inr \<lparr>status_code = 303, body = NoContent, location = Some ''/discussions'',
            set_cookies =
              [\<lparr>cookie_key = ''access_token'',
                cookie_value =
                  Signed ''HS256'' [(''sub'', JStr ''2''), (''exp'', JInt 607801)] SECRET_KEY,
                httponly = True, samesite = ''lax'', max_age = 604800\<rparr>],
            deleted_cookies = []\<rparr>
   \<and> evolves
        (snd (register_request sample_ctx ''s3'' 77 3000 3001 ''carol'' ''Carol@X.com'' ''pw3''
               ''pw3'' [alice]))
        (snd (register_request sample_ctx ''s4'' 78 4000 4001 ''dave'' ''dave@x.com'' ''pw4'' ''pw4''
               (snd (register_request sample_ctx ''s3'' 77 3000 3001 ''carol'' ''Carol@X.com''
                      ''pw3'' ''pw3'' [alice]))))
   \<and> lower (strip '' CAROL@x.com '') = lower (strip ''Carol@X.com'')
   \<and> query_first_by_email
        (get_db (snd (register_request sample_ctx ''s4'' 78 4000 4001 ''dave'' ''dave@x.com''
               ''pw4'' ''pw4''
               (snd (register_request sample_ctx ''s3'' 77 3000 3001 ''carol'' ''Carol@X.com''
                      ''pw3'' ''pw3'' [alice])))))
        (lower (strip '' CAROL@x.com ''))
       = Some (new_row sample_ctx ''s3'' 77 3000 ''carol'' ''Carol@X.com'' ''pw3'' [alice])"
proof -
  have h1: "fst (register_request sample_ctx ''s3'' 77 3000 3001 ''carol'' ''Carol@X.com'' ''pw3''
         ''pw3'' [alice])
     = Inr \<lparr>status_code = 303, body = NoContent, location = Some ''/discussions'',
            set_cookies =
              [\<lparr>cookie_key = ''access_token'',
                cookie_value =
                  Signed ''HS256'' [(''sub'', JStr ''2''), (''exp'', JInt 607801)] SECRET_KEY,
                httponly = True, samesite = ''lax'', max_age = 604800\<rparr>],
            deleted_cookies = []\<rparr>"
    by code_simp
  have h2: "status_code \<lparr>status_code = 303, body = NoContent, location = Some ''/discussions'',
            set_cookies =
              [\<lparr>cookie_key = ''access_token'',
                cookie_value =
                  Signed ''HS256'' [(''sub'', JStr ''2''), (''exp'', JInt 607801)] SECRET_KEY,
                httponly = True, samesite = ''lax'', max_age = 604800\<rparr>],
            deleted_cookies = []\<rparr> = 303"
    by simp
  have h3: "evolves
        (snd (register_request sample_ctx ''s3'' 77 3000 3001 ''carol'' ''Carol@X.com'' ''pw3''
               ''pw3'' [alice]))
        (snd (register_request sample_ctx ''s4'' 78 4000 4001 ''dave'' ''dave@x.com'' ''pw4'' ''pw4''
               (snd (register_request sample_ctx ''s3'' 77 3000 3001 ''carol'' ''Carol@X.com''
                      ''pw3'' ''pw3'' [alice]))))"
    by (rule evolves.registered) (rule evolves.same)
  have h4: "lower (strip '' CAROL@x.com '') = lower (strip ''Carol@X.com'')"
    by code_simp
  from login_finds_registered_user [OF h1 h2 h3 h4] h1 h3 h4 show ?thesis
    by blast
qed

section \<open>Sessions and the discussions page\<close>

lemma and_then_simps:
  "and_then (Inl e) k = Inl e"
  "and_then (Inr u) k = k"
  by (simp_all add: and_then_def)

lemma py_int_raises: "py_int s = Inl e \<Longrightarrow> e = ValueError"
  by (auto simp: py_int_def Let_def split: if_splits option.splits)

lemma int_of_jval_raises:
  "int_of_jval v = Inl e \<Longrightarrow> e = ValueError \<or> e = TypeError \<or> e = OverflowError"
  by (auto simp: int_of_jval_def split: jval.splits pyfloat.splits dest: py_int_raises)

lemma claim_int_raises:
  "claim_int payload name = Inl e \<Longrightarrow> e = JWTClaimsError \<or> e = TypeError \<or> e = OverflowError"
  by (auto simp: claim_int_def split: option.splits sum.splits if_splits
      dest: int_of_jval_raises)

lemma validate_str_raises: "validate_str payload name = Inl e \<Longrightarrow> e = JWTClaimsError"
  by (auto simp: validate_str_def split: option.splits jval.splits)

lemma validate_claims_raises:
  assumes "validate_claims payload now = Inl e"
  shows "isinstance_JWTError e \<or> e = TypeError \<or> e = OverflowError"
proof -
  have iat: "\<And>x. validate_iat payload = Inl x \<Longrightarrow>
      isinstance_JWTError x \<or> x = TypeError \<or> x = OverflowError"
    by (auto simp: validate_iat_def split: sum.splits dest: claim_int_raises)
  have nbf: "\<And>x. validate_nbf payload now = Inl x \<Longrightarrow>
      isinstance_JWTError x \<or> x = TypeError \<or> x = OverflowError"
    by (auto simp: validate_nbf_def split: sum.splits option.splits if_splits
        dest: claim_int_raises)
  have exp: "\<And>x. validate_exp payload now = Inl x \<Longrightarrow>
      isinstance_JWTError x \<or> x = TypeError \<or> x = OverflowError"
    by (auto simp: validate_exp_def split: sum.splits option.splits if_splits
        dest: claim_int_raises)
  have aud: "\<And>x. validate_aud payload = Inl x \<Longrightarrow> isinstance_JWTError x"
    by (auto simp: validate_aud_def split: option.splits)
  have str: "\<And>name x. validate_str payload name = Inl x \<Longrightarrow> isinstance_JWTError x"
    by (auto dest: validate_str_raises)
  have ath: "\<And>x. validate_at_hash payload = Inl x \<Longrightarrow> isinstance_JWTError x"
    by (auto simp: validate_at_hash_def split: option.splits)
  from assms show ?thesis
    unfolding validate_claims_def and_then_def
    by (auto split: sum.splits dest: iat nbf exp aud str ath)
qed

lemma jwt_decode_raises:
  "jwt_decode tok key algorithms now = Inl e \<Longrightarrow>
   isinstance_JWTError e \<or> e = TypeError \<or> e = OverflowError"
  by (auto simp: jwt_decode_def and_then_def split: token.splits if_splits sum.splits
      dest: validate_claims_raises)

lemma decode_token_raises:
  "decode_token now tok = Inl e \<Longrightarrow> e = TypeError \<or> e = OverflowError"
  by (auto simp: decode_token_def split: sum.splits if_splits dest: jwt_decode_raises)

lemma query_first_by_id_in_table:
  "query_first_by_id db uid = Inr (Some u) \<Longrightarrow> u \<in> set (table db) \<and> user_id u = uid"
  by (auto simp: query_first_by_id_def find_Some_iff split: if_splits)

lemma lookup_sub_in_table:
  "lookup_sub db data = Inr (Some u) \<Longrightarrow> u \<in> set (table db)"
  by (auto simp: lookup_sub_def split: option.splits sum.splits
      dest: query_first_by_id_in_table)

text \<open>
  Whatever \<^verbatim>\<open>decode_token\<close> returns, the rest of the resolution returns too: no user or a
  row of the table. So an exception leaves the resolution only out of \<^verbatim>\<open>decode_token\<close>.
\<close>

lemma session_user_after_decode:
  assumes "decode_token now tok = Inr d"
  shows "\<exists>r. session_user db now (Some tok) = Inr r
             \<and> (r = None \<or> (\<exists>u \<in> set (table db). r = Some u))"
proof (cases d)
  case None
  with assms show ?thesis by (simp add: session_user_def)
next
  case (Some data)
  show ?thesis
  proof (cases "lookup_sub db data")
    case (Inl e)
    with assms Some show ?thesis by (simp add: session_user_def)
  next
    case (Inr r)
    with assms Some lookup_sub_in_table [of db data] show ?thesis
      by (cases r) (auto simp: session_user_def)
  qed
qed

lemma session_user_raises:
  assumes "session_user db now cookie = Inl e"
  shows "(e = TypeError \<or> e = OverflowError)
       \<and> (\<exists>tok. cookie = Some tok \<and> decode_token now tok = Inl e)"
proof (cases cookie)
  case None
  with assms show ?thesis by (simp add: session_user_def)
next
  case (Some tok)
  show ?thesis
  proof (cases "decode_token now tok")
    case (Inl x)
    with assms Some have "x = e"
      by (simp add: session_user_def split: if_splits)
    with Inl Some decode_token_raises [of now tok e] show ?thesis by simp
  next
    case (Inr d)
    from session_user_after_decode [OF this, of db] assms Some show ?thesis by auto
  qed
qed

lemma session_user_result:
  "session_user db now cookie = Inr r \<Longrightarrow> r = None \<or> (\<exists>u \<in> set (table db). r = Some u)"
proof (cases cookie)
  case None
  assume "session_user db now cookie = Inr r"
  with None show ?thesis by (simp add: session_user_def)
next
  case (Some tok)
  assume r: "session_user db now cookie = Inr r"
  show ?thesis
  proof (cases "decode_token now tok")
    case (Inl x)
    with r Some show ?thesis by (simp add: session_user_def split: if_splits)
  next
    case (Inr d)
    from session_user_after_decode [OF this, of db] r Some show ?thesis by auto
  qed
qed

lemma session_user_Signed:
  "session_user db now (Some (Signed alg payload k)) =
     (case decode_token now (Signed alg payload k) of
        Inl e \<Rightarrow> Inl e
      | Inr None \<Rightarrow> Inr None
      | Inr (Some data) \<Rightarrow>
          if data \<noteq> [] \<and> ''sub'' \<in> fst ` set data
          then (case lookup_sub db data of Inl _ \<Rightarrow> Inr None | Inr user_obj \<Rightarrow> Inr user_obj)
          else Inr None)"
  by (simp add: session_user_def token_truthy_def)

text \<open>
  A payload whose only time claim is an integer \<^verbatim>\<open>exp\<close>, and that has none of \<^verbatim>\<open>aud\<close>,
  \<^verbatim>\<open>jti\<close> and \<^verbatim>\<open>at_hash\<close>, as the application issues it.
\<close>

lemma decode_token_plain:
  assumes "map_of payload ''iat'' = None" "map_of payload ''nbf'' = None"
    and "map_of payload ''aud'' = None" "map_of payload ''jti'' = None"
    and "map_of payload ''at_hash'' = None"
    and "map_of payload ''exp'' = Some (JInt e)"
  shows "decode_token now (Signed alg payload k) =
     (if alg \<noteq> ALGORITHM \<or> k \<noteq> SECRET_KEY \<or> e < now then Inr None
      else case map_of payload ''sub'' of
             None \<Rightarrow> Inr (Some payload)
           | Some (JStr s) \<Rightarrow> Inr (Some payload)
           | Some _ \<Rightarrow> Inr None)"
  using assms
  by (simp add: decode_token_def jwt_decode_def validate_claims_def validate_iat_def
      validate_nbf_def validate_exp_def validate_aud_def validate_str_def validate_at_hash_def
      claim_int_def int_of_jval_def and_then_simps split: option.splits jval.splits)

text \<open>
  The ways in which a cookie resolves to no user: absent, not a token, signed under
  another key or with another algorithm, and, for a payload as above, expired, without
  subject, with a subject that is not an integer, with a subject that is no stored id.
\<close>

lemma session_user_anonymous_cases:
  "session_user db now None = Inr None"
  "session_user db now (Some (Malformed s)) = Inr None"
  "k \<noteq> SECRET_KEY \<Longrightarrow> session_user db now (Some (Signed alg payload k)) = Inr None"
  "alg \<noteq> ALGORITHM \<Longrightarrow> session_user db now (Some (Signed alg payload k)) = Inr None"
  by (simp_all add: session_user_def token_truthy_def decode_token_def jwt_decode_def)

lemma session_user_anonymous_plain:
  assumes "map_of payload ''iat'' = None" "map_of payload ''nbf'' = None"
    and "map_of payload ''aud'' = None" "map_of payload ''jti'' = None"
    and "map_of payload ''at_hash'' = None"
    and "map_of payload ''exp'' = Some (JInt e)"
  shows "e < now \<Longrightarrow> session_user db now (Some (Signed alg payload k)) = Inr None"
    and "map_of payload ''sub'' = None \<Longrightarrow>
         session_user db now (Some (Signed alg payload k)) = Inr None"
    and "map_of payload ''sub'' = Some (JStr s) \<Longrightarrow> py_int s = Inl ValueError \<Longrightarrow>
         session_user db now (Some (Signed alg payload k)) = Inr None"
    and "map_of payload ''sub'' = Some (JStr s) \<Longrightarrow> py_int s = Inr uid \<Longrightarrow>
         \<forall>u \<in> set (table db). user_id u \<noteq> uid \<Longrightarrow>
         session_user db now (Some (Signed alg payload k)) = Inr None"
proof -
  note d = decode_token_plain [OF assms]
  show "e < now \<Longrightarrow> session_user db now (Some (Signed alg payload k)) = Inr None"
    by (simp add: session_user_Signed d)
  show "map_of payload ''sub'' = None \<Longrightarrow>
         session_user db now (Some (Signed alg payload k)) = Inr None"
  proof -
    assume n: "map_of payload ''sub'' = None"
    then have "''sub'' \<notin> fst ` set payload"
      by (simp add: map_of_eq_None_iff)
    with n show ?thesis
      by (simp add: session_user_Signed d)
  qed
  show "map_of payload ''sub'' = Some (JStr s) \<Longrightarrow> py_int s = Inl ValueError \<Longrightarrow>
         session_user db now (Some (Signed alg payload k)) = Inr None"
    by (auto simp: session_user_Signed d lookup_sub_def int_of_jval_def)
  show "map_of payload ''sub'' = Some (JStr s) \<Longrightarrow> py_int s = Inr uid \<Longrightarrow>
         \<forall>u \<in> set (table db). user_id u \<noteq> uid \<Longrightarrow>
         session_user db now (Some (Signed alg payload k)) = Inr None"
    by (auto simp: session_user_Signed d lookup_sub_def int_of_jval_def
        query_first_by_id_def find_None_iff)
qed

text \<open>And a token in date, signed by the application for a stored id, resolves to that row.\<close>

lemma session_user_valid:
  assumes "map_of payload ''iat'' = None" "map_of payload ''nbf'' = None"
    and "map_of payload ''aud'' = None" "map_of payload ''jti'' = None"
    and "map_of payload ''at_hash'' = None"
    and "map_of payload ''exp'' = Some (JInt e)"
    and "map_of payload ''sub'' = Some (JStr s)" "py_int s = Inr uid" "now \<le> e"
    and "find (\<lambda>r. user_id r = uid) (table db) = Some u"
    and "- (2 ^ 63) \<le> uid" "uid < 2 ^ 63"
  shows "session_user db now (Some (Signed ALGORITHM payload SECRET_KEY)) = Inr (Some u)"
proof -
  from assms(7) have "payload \<noteq> []" "''sub'' \<in> fst ` set payload"
    by (auto dest: map_of_SomeD intro: rev_image_eqI)
  with assms(7-12) show ?thesis
    by (simp add: session_user_Signed decode_token_plain [OF assms(1-6)]
        int_of_jval_def lookup_sub_def query_first_by_id_def)
qed

text \<open>When the resolution yields no user, the response is the one for a request without cookie.\<close>

lemma discussions_guest:
  "session_user db now cookie = Inr None \<Longrightarrow>
   discussions templates now cookie db = discussions templates now None db"
  by (simp add: discussions_def discussions_context_def session_user_anonymous_cases(1))

text \<open>
  C2. The claim does not hold of the code. \<^verbatim>\<open>decode_token\<close> catches \<^verbatim>\<open>JWTError\<close> only and
  is called at line 127, outside the \<^verbatim>\<open>try\<close> of lines 129 to 133. For a cookie that is
  signed with the application's key and whose \<^verbatim>\<open>exp\<close> is null, \<^verbatim>\<open>jwt.decode\<close> raises
  \<^verbatim>\<open>TypeError\<close>; it leaves \<^verbatim>\<open>decode_token\<close>, the resolution and the handler.
\<close>

theorem session_resolution_raises:
  "decode_token 5000 exp_null_cookie = Inl TypeError
   \<and> session_user (get_db [alice]) 5000 (Some exp_null_cookie) = Inl TypeError
   \<and> discussions sample_templates 5000 (Some exp_null_cookie) (get_db [alice]) = Inl TypeError"
  by code_simp

text \<open>
  When the template directory has no \<^verbatim>\<open>discussions/discussions.html\<close>, the handler answers
  with the inline fallback page and status 200 whenever the resolution of the cookie
  returns; \<^verbatim>\<open>TemplateNotFound\<close> never leaves it.
\<close>

lemma discussions_template_missing:
  assumes "templates ''discussions/discussions.html'' = None"
  shows "discussions templates now cookie db =
     (case session_user db now cookie of
        Inl e \<Rightarrow> Inl e
      | Inr _ \<Rightarrow> Inr (HTMLResponse DiscussionsUnavailable 200))"
    and "discussions templates now cookie db \<noteq> Inl TemplateNotFound"
proof -
  show a: "discussions templates now cookie db =
     (case session_user db now cookie of
        Inl e \<Rightarrow> Inl e
      | Inr _ \<Rightarrow> Inr (HTMLResponse DiscussionsUnavailable 200))"
    using assms
    by (simp add: discussions_def discussions_context_def TemplateResponse_def
        split: sum.splits)
  show "discussions templates now cookie db \<noteq> Inl TemplateNotFound"
    using a session_user_raises [of db now cookie TemplateNotFound]
    by (auto split: sum.splits)
qed

text \<open>
  C7. The claim does not hold of the code for every request: with the template missing
  and the cookie of C2, the exception of line 127 leaves the handler before the
  template is looked up, and the answer is not the fallback page.
\<close>

theorem discussions_template_missing_raises:
  "(Map.empty :: template_dir) ''discussions/discussions.html'' = None
   \<and> discussions Map.empty 5000 (Some exp_null_cookie) (get_db [alice]) = Inl TypeError
   \<and> discussions Map.empty 5000 None (get_db [alice])
       = Inr (HTMLResponse DiscussionsUnavailable 200)"
  by code_simp

section \<open>Listings\<close>

lemma rowid_scan_sorted: "sorted (map user_id (rowid_scan tbl))"
  by (simp add: rowid_scan_def)

lemma query_order_by_id_eq: "query_order_by_id db = sort_key user_id (table db)"
  by (simp add: query_order_by_id_def rowid_scan_def sort_key_id_if_sorted)

text \<open>
  C6. For every state of the table, each of the three listings returns all stored rows
  ordered by id ascending: the JSON list of \<^verbatim>\<open>/debug/users\<close>, the table rows of
  \<^verbatim>\<open>/debug/users/html\<close>, and the \<^verbatim>\<open>users_list\<close> that the discussions page hands to its
  template. The debug endpoints ask for no order and get the rows as SQLite walks
  the table, by rowid, which is the id; the discussions page asks for the order by id.
\<close>

theorem listings_ordered_by_id:
  "sorted (map j_id (get_all_users db))
   \<and> map j_id (get_all_users db) = map user_id (sort_key user_id (table db))
   \<and> body (get_all_users_html db)
       = UsersTable (map (\<lambda>u. (py_str (user_id u), username u, email u, created_at u))
                      (sort_key user_id (table db)))
   \<and> sorted (map user_id (query_order_by_id db))
   \<and> query_order_by_id db = sort_key user_id (table db)
   \<and> set (sort_key user_id (table db)) = set (table db)
   \<and> length (sort_key user_id (table db)) = length (table db)
   \<and> (discussions_context db now cookie = Inr tctx \<longrightarrow>
        ctx_users_list tctx = query_order_by_id db
        \<and> sorted (map user_id (ctx_users_list tctx)))"
proof -
  have ids: "map j_id (get_all_users db) = map user_id (sort_key user_id (table db))"
    by (simp add: get_all_users_def query_all_def rowid_scan_def comp_def)
  have html: "body (get_all_users_html db)
       = UsersTable (map (\<lambda>u. (py_str (user_id u), username u, email u, created_at u))
                      (sort_key user_id (table db)))"
    by (simp add: get_all_users_html_def query_all_def rowid_scan_def HTMLResponse_def)
  have ctx: "discussions_context db now cookie = Inr tctx \<longrightarrow>
        ctx_users_list tctx = query_order_by_id db
        \<and> sorted (map user_id (ctx_users_list tctx))"
    by (auto simp: discussions_context_def query_order_by_id_eq split: sum.splits)
  from ids html ctx show ?thesis
    by (simp add: query_order_by_id_eq)
qed

theorem listings_ordered_by_id_witness:
  "discussions_context (get_db [bob, alice]) 5000 None
     = Inr \<lparr>ctx_user = None, ctx_users_list = [alice, bob]\<rparr>
   \<and> ctx_users_list \<lparr>ctx_user = None, ctx_users_list = [alice, bob]\<rparr>
       = query_order_by_id (get_db [bob, alice])
   \<and> map j_id (get_all_users (get_db [bob, alice])) = [1, 2]"
proof -
  have h: "discussions_context (get_db [bob, alice]) 5000 None
     = Inr \<lparr>ctx_user = None, ctx_users_list = [alice, bob]\<rparr>"
    by code_simp
  have e: "map j_id (get_all_users (get_db [bob, alice])) = [1, 2]"
    by code_simp
  from h e listings_ordered_by_id [where db = "get_db [bob, alice]" and now = 5000
      and cookie = None and tctx = "\<lparr>ctx_user = None, ctx_users_list = [alice, bob]\<rparr>"]
  show ?thesis by blast
qed

section \<open>Tokens\<close>

lemma decode_token_issued:
  "decode_token t (Signed ''HS256'' [(''sub'', JStr s), (''exp'', JInt e)] SECRET_KEY) =
     (if e < t then Inr None else Inr (Some [(''sub'', JStr s), (''exp'', JInt e)]))"
  by (simp add: decode_token_plain [where e = e] ALGORITHM_def)

text \<open>
  C5 as stated fails at the instant of expiry: a token issued at time 0 is still
  accepted at time 604800, its \<^verbatim>\<open>exp\<close>.
\<close>

theorem token_at_expiry_counterexample:
  "decode_token (0 + 604800) (create_access_token 0 [(''sub'', JStr (py_str 1))] None)
     = Inr (Some [(''sub'', JStr ''1''), (''exp'', JInt 604800)])
   \<and> decode_token (0 + 604800) (create_access_token 0 [(''sub'', JStr (py_str 1))] None)
     \<noteq> Inr None"
  by code_simp

text \<open>
  C5, amended. A token issued at \<open>issued\<close> for id \<open>x\<close> with the default lifetime, decoded
  at a time up to and including \<open>issued + 604800\<close>, yields the claims with \<^verbatim>\<open>sub\<close> equal to
  the decimal string of \<open>x\<close> (which \<^verbatim>\<open>int\<close> reads back as \<open>x\<close>, for an \<open>x\<close> within the
  interpreter's digit limit); decoded later, it yields \<^verbatim>\<open>None\<close>.
\<close>

theorem token_roundtrip_until_expiry:
  "(t \<le> issued + 604800 \<longrightarrow>
      (\<exists>c. decode_token t (create_access_token issued [(''sub'', JStr (py_str x))] None)
             = Inr (Some c)
           \<and> map_of c ''sub'' = Some (JStr (py_str x))
           \<and> map_of c ''exp'' = Some (JInt (issued + 604800))))
   \<and> (issued + 604800 < t \<longrightarrow>
      decode_token t (create_access_token issued [(''sub'', JStr (py_str x))] None) = Inr None)
   \<and> (\<bar>x\<bar> < 10 ^ MAX_STR_DIGITS \<longrightarrow> int_of_jval (JStr (py_str x)) = Inr x)"
  by (simp add: create_access_token_default decode_token_issued int_of_jval_def py_int_py_str)

theorem token_roundtrip_until_expiry_witness:
  "(1000 :: int) \<le> 5 + 604800
   \<and> (\<exists>c. decode_token 1000 (create_access_token 5 [(''sub'', JStr (py_str 7))] None)
             = Inr (Some c) \<and> map_of c ''sub'' = Some (JStr (py_str 7)))
   \<and> (5 :: int) + 604800 < 604806
   \<and> decode_token 604806 (create_access_token 5 [(''sub'', JStr (py_str 7))] None) = Inr None
   \<and> \<bar>7 :: int\<bar> < 10 ^ MAX_STR_DIGITS
   \<and> int_of_jval (JStr (py_str 7)) = Inr 7"
proof -
  have h1: "(1000 :: int) \<le> 5 + 604800" and h2: "(5 :: int) + 604800 < 604806"
    by simp_all
  have "(10 :: int) ^ 1 \<le> 10 ^ MAX_STR_DIGITS"
    by (rule power_increasing) (simp_all add: MAX_STR_DIGITS_def)
  then have h3: "\<bar>7 :: int\<bar> < 10 ^ MAX_STR_DIGITS" by simp
  from h1 h2 h3 token_roundtrip_until_expiry [of 1000 5 7]
    token_roundtrip_until_expiry [of 604806 5 7]
  show ?thesis by blast
qed

end
